theory Spec2Isabelle
  imports Complex_Main
begin

section \<open>Frontend: data of the training and backtesting services\<close>

text \<open>
  \<^verbatim>\<open>frontend/src/services/trainingService.ts\<close>: a progress row of one algorithm. The
  status is a union of four string literals; the step counters are the integers the
  backend sends, loss and reward are numbers.
\<close>

datatype progress_status = Pending | Training | Completed | Failed

record TrainingProgress =
  algorithm :: string
  epoch :: int
  totalEpochs :: int
  loss :: real
  reward :: real
  status :: progress_status

text \<open>The result row of one algorithm; its status is \<^verbatim>\<open>'completed' | 'failed'\<close>.\<close>

datatype result_status = ResultCompleted | ResultFailed

record TrainingMetrics =
  totalReward :: real
  tr_sharpeRatio :: real
  tr_maxDrawdown :: real
  tr_winRate :: real
  initialAmount :: real
  finalAmount :: real
  returnRate :: real

record TrainingResult =
  tr_algorithm :: string
  tr_status :: result_status
  tr_metrics :: TrainingMetrics
  trainingTime :: real
  modelPath :: string

record TrainingResponse =
  jobId :: string
  progress :: "TrainingProgress list"
  results :: "TrainingResult list"

text \<open>
  An axios failure as the pages read it: \<^verbatim>\<open>error?.response?.status\<close>,
  \<^verbatim>\<open>error?.response?.data?.detail\<close> and \<^verbatim>\<open>error.message\<close>.
\<close>

record api_error =
  response_status :: "nat option"
  response_detail :: "string option"
  error_message :: string

datatype toast = Success string | Error string

section \<open>Frontend: the progress poll of the training page\<close>

text \<open>
  The state of \<^verbatim>\<open>AgentTraining\<close> that the poll touches: the React state
  (\<^verbatim>\<open>training\<close>, \<^verbatim>\<open>progress\<close>, \<^verbatim>\<open>results\<close>, \<^verbatim>\<open>pollingInterval\<close>), the
  browser's table of running interval timers, the toasts shown and the console.
\<close>

record training_page =
  training :: bool
  shown_progress :: "TrainingProgress list"
  shown_results :: "TrainingResult list"
  pollingInterval :: "nat option"
  timers :: "nat set"
  toasts :: "toast list"
  console :: "string list"

definition is_terminal :: "TrainingProgress \<Rightarrow> bool" where
  "is_terminal p \<longleftrightarrow> status p = Completed \<or> status p = Failed"

text \<open>
  One firing of the callback given to \<^verbatim>\<open>setInterval(..., 2000)\<close> in
  \<^verbatim>\<open>startTraining\<close>; the argument is what \<^verbatim>\<open>trainingService.getProgress\<close> gave:
  a response, or the error it threw (caught and logged).
\<close>

definition poll_tick :: "nat \<Rightarrow> api_error + TrainingResponse \<Rightarrow> training_page \<Rightarrow> training_page" where
  "poll_tick interval r st =
     (case r of
        Inr progressData \<Rightarrow>
          (let st1 = st\<lparr>shown_progress := progress progressData,
                         shown_results := results progressData\<rparr>;
               allCompleted = list_all is_terminal (progress progressData)
           in if allCompleted
              then st1\<lparr>training := False,
                       timers := timers st1 - {interval},
                       pollingInterval := None,
                       toasts := toasts st1 @ [Success ''Training completed!'']\<rparr>
              else st1)
      | Inl err \<Rightarrow> st\<lparr>console := console st @ [''Error fetching progress:'']\<rparr>)"

text \<open>
  The timer fires every 2000 ms for as long as it is in the timer table; each firing
  gets the next answer of the server.
\<close>

fun run_polling :: "nat \<Rightarrow> (api_error + TrainingResponse) list \<Rightarrow> training_page \<Rightarrow> training_page" where
  "run_polling interval [] st = st"
| "run_polling interval (r # rs) st =
     (if interval \<in> timers st then run_polling interval rs (poll_tick interval r st) else st)"

text \<open>The answers on which a firing ends the polling: a response all of whose entries are terminal.\<close>

definition stops_polling :: "api_error + TrainingResponse \<Rightarrow> bool" where
  "stops_polling r = (case r of Inr d \<Rightarrow> list_all is_terminal (progress d) | Inl _ \<Rightarrow> False)"

section \<open>Frontend: the result poll of the backtesting page\<close>

text \<open>
  \<^verbatim>\<open>BacktestResult\<close> of the backtesting service: the \<^verbatim>\<open>type\<close> field is the union
  \<^verbatim>\<open>'drl' | 'baseline'\<close>.
\<close>

datatype result_type = Drl | Baseline

record BacktestMetrics =
  totalReturn :: real
  sharpeRatio :: real
  maxDrawdown :: real
  volatility :: real
  winRate :: real

record BacktestResult =
  bt_algorithm :: string
  bt_type :: result_type
  returns :: "real list"
  cumulativeReturns :: "real list"
  dates :: "string list"
  metrics :: BacktestMetrics

record BacktestComparison =
  bestAlgorithm :: string
  bestReturn :: real
  bestSharpeRatio :: real

record BacktestResponse =
  bt_jobId :: string
  bt_results :: "BacktestResult list"
  comparison :: BacktestComparison

record backtest_page =
  backtesting :: bool
  page_results :: "BacktestResult list"
  page_comparison :: "BacktestComparison option"
  bt_toasts :: "toast list"
  timeouts :: "nat list"

text \<open>JavaScript's \<^verbatim>\<open>a || b\<close> on an optional string: an absent or empty \<open>a\<close> gives \<open>b\<close>.\<close>

definition js_or :: "string option \<Rightarrow> string \<Rightarrow> string" where
  "js_or a b = (case a of None \<Rightarrow> b | Some s \<Rightarrow> if s = [] then b else s)"

text \<open>
  \<^verbatim>\<open>pollResults\<close>: the \<open>n\<close>-th call asks the server (\<open>getResults n\<close> is its \<open>n\<close>-th
  answer). A 404 schedules the next call with \<^verbatim>\<open>setTimeout(pollResults, 2000)\<close>, recorded
  in \<open>timeouts\<close>; the loop has no bound of its own, so not returning is the value \<open>None\<close>.
\<close>

partial_function (option) pollResults ::
  "(nat \<Rightarrow> api_error + BacktestResponse) \<Rightarrow> nat \<Rightarrow> backtest_page \<Rightarrow> backtest_page option" where
  "pollResults getResults n st =
     (case getResults n of
        Inr backtestResults \<Rightarrow>
          Some (st\<lparr>page_results := bt_results backtestResults,
                   page_comparison := Some (comparison backtestResults),
                   backtesting := False,
                   bt_toasts := bt_toasts st @ [Success ''Backtesting completed!'']\<rparr>)
      | Inl err \<Rightarrow>
          if response_status err = Some 404
          then pollResults getResults (Suc n) (st\<lparr>timeouts := timeouts st @ [2000]\<rparr>)
          else Some (st\<lparr>backtesting := False,
                        bt_toasts := bt_toasts st @
                          [Error (''Backtesting failed: '' @ js_or (response_detail err) (error_message err))]\<rparr>))"

text \<open>What the last call does with an answer that is not a 404.\<close>

definition finish_poll :: "api_error + BacktestResponse \<Rightarrow> backtest_page \<Rightarrow> backtest_page" where
  "finish_poll r st =
     (case r of
        Inr backtestResults \<Rightarrow>
          st\<lparr>page_results := bt_results backtestResults,
             page_comparison := Some (comparison backtestResults),
             backtesting := False,
             bt_toasts := bt_toasts st @ [Success ''Backtesting completed!'']\<rparr>
      | Inl err \<Rightarrow>
          st\<lparr>backtesting := False,
             bt_toasts := bt_toasts st @
               [Error (''Backtesting failed: '' @ js_or (response_detail err) (error_message err))]\<rparr>)"

text \<open>The answers read as "results not ready yet": an error whose response has status 404.\<close>

definition not_ready :: "api_error + BacktestResponse \<Rightarrow> bool" where
  "not_ready r = (case r of Inl err \<Rightarrow> response_status err = Some 404 | Inr _ \<Rightarrow> False)"

section \<open>Backend: progress records of the training service\<close>

text \<open>
  The progress records of all jobs, one per (job id, algorithm).

  Modelled from the spec: \<^verbatim>\<open>_update_progress\<close> of \<^verbatim>\<open>training_service.py\<close> is
  called in the sources but not defined there. The data model has one record per
  (job, algorithm) pair, overwritten as training advances; the seven arguments are the
  ones of the calls quoted in \<^verbatim>\<open>PROGRESS_DISPLAY_FIX.md\<close>.
\<close>

type_synonym progress_store = "string \<times> string \<rightharpoonup> TrainingProgress"

definition update_progress ::
  "string \<Rightarrow> string \<Rightarrow> int \<Rightarrow> int \<Rightarrow> real \<Rightarrow> real \<Rightarrow> progress_status \<Rightarrow> progress_store \<Rightarrow> progress_store" where
  "update_progress job_id algo current total_steps l r s store =
     store((job_id, algo) \<mapsto>
       \<lparr>algorithm = algo, epoch = current, totalEpochs = total_steps, loss = l, reward = r, status = s\<rparr>)"

text \<open>
  \<^verbatim>\<open>progress_callback\<close> of \<^verbatim>\<open>training_service.py\<close> as \<^verbatim>\<open>PROGRESS_DISPLAY_FIX.md\<close>
  quotes it after the fix: the step count and the configured total are passed on as
  they are.
\<close>

definition progress_callback ::
  "string \<Rightarrow> string \<Rightarrow> int \<Rightarrow> int \<Rightarrow> real \<Rightarrow> real \<Rightarrow> progress_status \<Rightarrow> progress_store \<Rightarrow> progress_store" where
  "progress_callback job_id algo total_steps ep l r s store =
     update_progress job_id algo ep total_steps l r s store"

text \<open>
  \<^verbatim>\<open>ProgressCallback\<close> of \<^verbatim>\<open>trainer.py\<close>: the fields the quoted code shows.
\<close>

record ProgressCallback =
  total_timesteps :: int
  num_timesteps :: int
  last_loss :: real
  last_reward :: real

definition new_ProgressCallback :: "int \<Rightarrow> ProgressCallback" where
  "new_ProgressCallback total_steps =
     \<lparr>total_timesteps = total_steps, num_timesteps = 0, last_loss = 0, last_reward = 0\<rparr>"

text \<open>
  A report of the training loop: the cumulative step count reached and the rolling
  averages of loss and reward that the elided part of \<^verbatim>\<open>_on_step\<close> computed.
\<close>

record step_report =
  steps_done :: int
  avg_loss :: real
  avg_reward :: real

text \<open>
  \<^verbatim>\<open>_on_step\<close>: store the last values, then call \<^verbatim>\<open>callback_fn\<close>, when there is
  one, with \<^verbatim>\<open>epoch=self.num_timesteps\<close> and status \<^verbatim>\<open>"training"\<close>.
\<close>

definition on_step ::
  "(int \<Rightarrow> real \<Rightarrow> real \<Rightarrow> progress_status \<Rightarrow> progress_store \<Rightarrow> progress_store) option \<Rightarrow>
   step_report \<Rightarrow> ProgressCallback \<times> progress_store \<Rightarrow> ProgressCallback \<times> progress_store" where
  "on_step callback_fn rep cs =
     (let cb = (fst cs)\<lparr>num_timesteps := steps_done rep,
                        last_loss := avg_loss rep,
                        last_reward := avg_reward rep\<rparr>
      in case callback_fn of
           Some fn \<Rightarrow> (cb, fn (num_timesteps cb) (last_loss cb) (last_reward cb) Training (snd cs))
         | None \<Rightarrow> (cb, snd cs))"

fun run_steps ::
  "(int \<Rightarrow> real \<Rightarrow> real \<Rightarrow> progress_status \<Rightarrow> progress_store \<Rightarrow> progress_store) option \<Rightarrow>
   step_report list \<Rightarrow> ProgressCallback \<times> progress_store \<Rightarrow> ProgressCallback \<times> progress_store" where
  "run_steps callback_fn [] cs = cs"
| "run_steps callback_fn (rep # reps) cs = run_steps callback_fn reps (on_step callback_fn rep cs)"

text \<open>A Python dict with string keys, and \<^verbatim>\<open>d.get(key, default)\<close>.\<close>

definition dict_get :: "(string \<rightharpoonup> 'a) \<Rightarrow> string \<Rightarrow> 'a \<Rightarrow> 'a" where
  "dict_get d k dflt = (case d k of Some v \<Rightarrow> v | None \<Rightarrow> dflt)"

text \<open>
  \<^verbatim>\<open>train\<close> of \<^verbatim>\<open>trainer.py\<close>: the loop reports through the callback; the result
  dictionary takes \<^verbatim>\<open>final_loss\<close> from \<^verbatim>\<open>callback.last_loss\<close>, while
  \<^verbatim>\<open>final_reward\<close> and \<^verbatim>\<open>final_std\<close> are the outcome of the evaluation that closes
  the training (given here, with the training time, as arguments: that code is elided
  in the quotation).
\<close>

definition train ::
  "(int \<Rightarrow> real \<Rightarrow> real \<Rightarrow> progress_status \<Rightarrow> progress_store \<Rightarrow> progress_store) option \<Rightarrow>
   int \<Rightarrow> step_report list \<Rightarrow> real \<Rightarrow> real \<Rightarrow> real \<Rightarrow> progress_store \<Rightarrow>
   (string \<rightharpoonup> real) \<times> progress_store" where
  "train callback_fn total_steps reps final_reward final_std training_time store =
     (let cs = run_steps callback_fn reps (new_ProgressCallback total_steps, store);
          final_loss = last_loss (fst cs)
      in ([''total_steps'' \<mapsto> real_of_int total_steps,
           ''training_time'' \<mapsto> training_time,
           ''final_reward'' \<mapsto> final_reward,
           ''final_std'' \<mapsto> final_std,
           ''final_loss'' \<mapsto> final_loss,
           ''best_reward'' \<mapsto> final_reward],
          snd cs))"

text \<open>
  The three writes of \<^verbatim>\<open>train_algorithm\<close> in \<^verbatim>\<open>training_service.py\<close> around the
  call of the trainer: the initial record, the trainer's reports, and the terminal
  record with \<^verbatim>\<open>final_loss\<close> and \<^verbatim>\<open>final_reward\<close> read from the metrics.
\<close>

definition train_algorithm ::
  "string \<Rightarrow> string \<Rightarrow> int \<Rightarrow> step_report list \<Rightarrow> real \<Rightarrow> real \<Rightarrow> real \<Rightarrow> progress_store \<Rightarrow> progress_store" where
  "train_algorithm job_id algo total_steps reps eval_reward eval_std training_time store =
     (let store1 = update_progress job_id algo 0 total_steps 0 0 Training store;
          (training_metrics, store2) =
             train (Some (progress_callback job_id algo total_steps)) total_steps reps
               eval_reward eval_std training_time store1;
          final_loss = dict_get training_metrics ''final_loss''
                         (dict_get training_metrics ''final_std'' 0);
          final_reward = dict_get training_metrics ''final_reward'' 0
      in update_progress job_id algo total_steps total_steps final_loss final_reward Completed store2)"

text \<open>
  What a polling client can read while the trainer has delivered the first \<open>k\<close> of its
  reports: the store after the initial write and those reports.
\<close>

definition store_during ::
  "string \<Rightarrow> string \<Rightarrow> int \<Rightarrow> step_report list \<Rightarrow> progress_store \<Rightarrow> progress_store" where
  "store_during job_id algo total_steps reps store =
     snd (run_steps (Some (progress_callback job_id algo total_steps)) reps
            (new_ProgressCallback total_steps, update_progress job_id algo 0 total_steps 0 0 Training store))"

text \<open>
  The record a client reads while training runs, as the theorems state it: the initial
  record before the first report, then the snapshot of the last report.
\<close>

definition rolling_record :: "string \<Rightarrow> int \<Rightarrow> step_report list \<Rightarrow> TrainingProgress" where
  "rolling_record algo total_steps reps =
     (if reps = []
      then \<lparr>algorithm = algo, epoch = 0, totalEpochs = total_steps, loss = 0, reward = 0, status = Training\<rparr>
      else \<lparr>algorithm = algo, epoch = steps_done (last reps), totalEpochs = total_steps,
            loss = avg_loss (last reps), reward = avg_reward (last reps), status = Training\<rparr>)"

section \<open>Backend: the minimum-timesteps advisory\<close>

text \<open>
  \<^verbatim>\<open>MIN_TIMESTEPS_RECOMMENDED\<close> of \<^verbatim>\<open>routers/training.py\<close> as \<^verbatim>\<open>FIXES_APPLIED.md\<close>
  quotes it, and the later table of the hyperparameter notes. The advisory below takes
  the table as an argument.
\<close>

definition MIN_TIMESTEPS_RECOMMENDED :: "string \<rightharpoonup> int" where
  "MIN_TIMESTEPS_RECOMMENDED =
     [''PPO'' \<mapsto> 5000, ''DQN'' \<mapsto> 5000, ''A2C'' \<mapsto> 3000, ''SAC'' \<mapsto> 8000, ''TD3'' \<mapsto> 8000]"

definition MIN_TIMESTEPS_RECOMMENDED_optimized :: "string \<rightharpoonup> int" where
  "MIN_TIMESTEPS_RECOMMENDED_optimized =
     [''PPO'' \<mapsto> 10000, ''DQN'' \<mapsto> 10000, ''A2C'' \<mapsto> 8000, ''SAC'' \<mapsto> 15000, ''TD3'' \<mapsto> 15000]"

text \<open>
  A line of the job's log: the level, and for the advisory's warning the three values
  its message is formatted from (algorithm, recommended minimum, requested steps).
\<close>

datatype log_level = INFO | WARNING | ERROR

record log_record =
  level :: log_level
  about :: string
  recommended :: int
  requested :: int

text \<open>
  The loop of the router: \<^verbatim>\<open>min_steps = MIN_TIMESTEPS_RECOMMENDED.get(algo, 3000)\<close>, and
  \<^verbatim>\<open>logger.warning(...)\<close> when \<^verbatim>\<open>total_timesteps < min_steps\<close>. It has no other effect.
\<close>

fun warn_timesteps :: "(string \<rightharpoonup> int) \<Rightarrow> string list \<Rightarrow> int \<Rightarrow> log_record list \<Rightarrow> log_record list" where
  "warn_timesteps tbl [] total_steps lg = lg"
| "warn_timesteps tbl (algo # algorithms) total_steps lg =
     (let min_steps = dict_get tbl algo 3000
      in warn_timesteps tbl algorithms total_steps
           (if total_steps < min_steps
            then lg @ [\<lparr>level = WARNING, about = algo, recommended = min_steps, requested = total_steps\<rparr>]
            else lg))"

text \<open>
  What the training of one algorithm came to: it ran through, with its reports and the
  closing evaluation (reward, deviation) and the training time, or it raised after some
  reports.
\<close>

datatype training_outcome =
  Trained "step_report list" real real real
| Raised "step_report list"

text \<open>
  Modelled from the spec: the supervisor around \<^verbatim>\<open>train_algorithm\<close> is not in the
  sources. Per (job, algorithm) the state machine is pending, training, then completed
  or failed; on an exception the status failed is written and the siblings go on. The
  failed record keeps the fields of the last record written.
\<close>

definition supervise_algorithm ::
  "string \<Rightarrow> int \<Rightarrow> (string \<Rightarrow> training_outcome) \<Rightarrow> string \<Rightarrow> progress_store \<Rightarrow> progress_store" where
  "supervise_algorithm job_id total_steps outcome algo store =
     (case outcome algo of
        Trained reps eval_reward eval_std training_time \<Rightarrow>
          train_algorithm job_id algo total_steps reps eval_reward eval_std training_time store
      | Raised reps \<Rightarrow>
          (let store1 = store_during job_id algo total_steps reps store
           in case store1 (job_id, algo) of
                Some p \<Rightarrow> store1((job_id, algo) \<mapsto> p\<lparr>status := Failed\<rparr>)
              | None \<Rightarrow> store1))"

text \<open>
  The state of the supervisor: the progress records and the job's log.

  Modelled from the spec: job submission, absent from the sources but for the advisory
  loop. It creates one record per algorithm in the pending state and then trains every
  algorithm; the advisory runs first and only writes to the log.
\<close>

record supervisor =
  records :: progress_store
  job_log :: "log_record list"

definition submit_job ::
  "(string \<rightharpoonup> int) \<Rightarrow> string \<Rightarrow> string list \<Rightarrow> int \<Rightarrow> (string \<Rightarrow> training_outcome) \<Rightarrow> supervisor \<Rightarrow> supervisor" where
  "submit_job tbl job_id algorithms total_steps outcome sv =
     (let lg = warn_timesteps tbl algorithms total_steps (job_log sv);
          pending = fold (\<lambda>algo. update_progress job_id algo 0 total_steps 0 0 Pending) algorithms (records sv);
          trained = fold (supervise_algorithm job_id total_steps outcome) algorithms pending
      in sv\<lparr>records := trained, job_log := lg\<rparr>)"

text \<open>A job is complete when every algorithm has reached a terminal status.\<close>

definition job_status :: "string \<Rightarrow> string list \<Rightarrow> supervisor \<Rightarrow> progress_status list" where
  "job_status job_id algorithms sv =
     map (\<lambda>algo. case records sv (job_id, algo) of Some p \<Rightarrow> status p | None \<Rightarrow> Pending) algorithms"

definition ran_through :: "training_outcome \<Rightarrow> bool" where
  "ran_through oc = (case oc of Trained _ _ _ _ \<Rightarrow> True | Raised _ \<Rightarrow> False)"

section \<open>Backend: the return rate of the evaluation\<close>

text \<open>
  The state of the trading environment that the evaluation reads.

  Modelled from the spec: \<^verbatim>\<open>stock_env.py\<close> is not in the sources. The portfolio state is
  cash, the holdings per symbol and the day cursor; the price series gives the closing
  prices of each day; \<open>cumulative_returns\<close> is the running accumulator the environment
  keeps.
\<close>

record trading_env =
  initial_amount :: real
  cash :: real
  holdings :: "real list"
  day_index :: nat
  close_price :: "nat \<Rightarrow> real list"
  cumulative_returns :: real

text \<open>
  Modelled from the spec: \<^verbatim>\<open>get_total_asset\<close> is called in the sources but not defined
  there. Total asset value is cash plus the sum over the symbols of the holding times
  the closing price of the current day.
\<close>

definition get_total_asset :: "trading_env \<Rightarrow> real" where
  "get_total_asset env =
     cash env + (\<Sum>(h, p) \<leftarrow> zip (holdings env) (close_price env (day_index env)). h * p)"

datatype eval_error = DivisionByZero

text \<open>
  The evaluation of \<^verbatim>\<open>_evaluate_on_test\<close> (and of \<^verbatim>\<open>_evaluate\<close> in the trainer) as
  \<^verbatim>\<open>A2C_ZERO_RETURN_FIX.md\<close> quotes it after the fix. The environment of this
  repository has both attributes the \<^verbatim>\<open>hasattr\<close> guard asks for. Python's division
  by a zero \<^verbatim>\<open>initial_amount\<close> gives no return rate (an exception, or inf or nan).
\<close>

definition evaluate_return_rate :: "trading_env \<Rightarrow> eval_error + real" where
  "evaluate_return_rate env =
     (let final_value = get_total_asset env
      in if initial_amount env = 0 then Inl DivisionByZero
         else Inr ((final_value - initial_amount env) / initial_amount env))"

text \<open>
  The same place before the fix:
  \<^verbatim>\<open>getattr(env_unwrapped, 'cumulative_returns', 1.0) - 1.0\<close>.
\<close>

definition evaluate_return_rate_stale :: "trading_env \<Rightarrow> real" where
  "evaluate_return_rate_stale env = cumulative_returns env - 1"

section \<open>Backend: aggregate metrics of a backtest series\<close>

text \<open>
  Division as the metric utilities meet it: by zero there is no quotient (Python raises
  \<^verbatim>\<open>ZeroDivisionError\<close>, an array library gives nan or inf), here the error value.
\<close>

definition checked_div :: "real \<Rightarrow> real \<Rightarrow> eval_error + real" where
  "checked_div x y = (if y = 0 then Inl DivisionByZero else Inr (x / y))"

text \<open>
  Modelled from the spec: \<^verbatim>\<open>_calculate_sharpe_ratio\<close> and the other metric utilities of
  the services are named in the sources but not defined there. Mean, variance and
  standard deviation (of the population) of a series of daily returns, over the reals;
  the rounding of floating point is not part of the model. On an empty series the
  divisions by its length fail.
\<close>

definition mean :: "real list \<Rightarrow> eval_error + real" where
  "mean xs = checked_div (sum_list xs) (real (length xs))"

definition variance :: "real list \<Rightarrow> eval_error + real" where
  "variance xs =
     (case mean xs of
        Inl e \<Rightarrow> Inl e
      | Inr m \<Rightarrow> checked_div (\<Sum>x\<leftarrow>xs. (x - m)\<^sup>2) (real (length xs)))"

definition std :: "real list \<Rightarrow> eval_error + real" where
  "std xs = (case variance xs of Inl e \<Rightarrow> Inl e | Inr v \<Rightarrow> Inr (sqrt v))"

text \<open>
  Modelled from the spec: the Sharpe ratio is the mean daily return over the standard
  deviation of the daily returns, times the square root of 252; a zero deviation is
  guarded against by returning 0 rather than dividing by it.
\<close>

definition calculate_sharpe_ratio :: "real list \<Rightarrow> eval_error + real" where
  "calculate_sharpe_ratio daily_returns =
     (case mean daily_returns of
        Inl e \<Rightarrow> Inl e
      | Inr m \<Rightarrow>
          (case std daily_returns of
             Inl e \<Rightarrow> Inl e
           | Inr s \<Rightarrow>
               if s = 0 then Inr 0
               else (case checked_div m s of
                       Inl e \<Rightarrow> Inl e
                     | Inr q \<Rightarrow> Inr (q * sqrt 252))))"

text \<open>
  Modelled from the spec: the maximum drawdown is the largest decline of the
  cumulative-return curve from a peak to a later trough; the win rate is the fraction of
  days with a positive return; the total return is the final cumulative return.
\<close>

fun drawdown_from :: "real \<Rightarrow> real \<Rightarrow> real list \<Rightarrow> real" where
  "drawdown_from peak worst [] = worst"
| "drawdown_from peak worst (c # cs) =
     (let peak' = max peak c in drawdown_from peak' (max worst (peak' - c)) cs)"

definition max_drawdown :: "real list \<Rightarrow> real" where
  "max_drawdown curve = (case curve of [] \<Rightarrow> 0 | c # cs \<Rightarrow> drawdown_from c 0 cs)"

definition win_rate :: "real list \<Rightarrow> eval_error + real" where
  "win_rate daily_returns =
     checked_div (real (length (filter (\<lambda>r. 0 < r) daily_returns))) (real (length daily_returns))"

text \<open>
  Modelled from the spec: the metrics packed into a result are numbers; numeric
  instability does not raise but gives a sentinel value, so a metric that is not
  defined for the series is packed as 0.
\<close>

definition or_sentinel :: "eval_error + real \<Rightarrow> real" where
  "or_sentinel r = (case r of Inr v \<Rightarrow> v | Inl _ \<Rightarrow> 0)"

definition calculate_metrics :: "real list \<Rightarrow> real list \<Rightarrow> BacktestMetrics" where
  "calculate_metrics daily_returns curve =
     \<lparr>totalReturn = (if curve = [] then 0 else last curve),
      sharpeRatio = or_sentinel (calculate_sharpe_ratio daily_returns),
      maxDrawdown = max_drawdown curve,
      volatility = or_sentinel (std daily_returns),
      winRate = or_sentinel (win_rate daily_returns)\<rparr>"

section \<open>Backend: the backtest batch\<close>

text \<open>
  The wire form of the \<^verbatim>\<open>type\<close> field, as the service declares it and the results table
  of the backtesting page compares it (\<^verbatim>\<open>record.type === 'drl'\<close>).
\<close>

fun type_tag :: "result_type \<Rightarrow> string" where
  "type_tag Drl = ''drl''"
| "type_tag Baseline = ''baseline''"

text \<open>
  Who drives a replay: a loaded agent, the seeded pseudo-random fallback, or a baseline
  by name. One replay of the test partition gives the per-day returns, the curve of
  cumulative returns and the dates; the environment and the agents are outside the batch logic, so
  the replay is an argument of it.
\<close>

datatype 'm policy = AgentPolicy 'm | SeededRandom nat | BaselinePolicy string

record episode =
  ep_returns :: "real list"
  ep_cumulative :: "real list"
  ep_dates :: "string list"

definition make_result :: "string \<Rightarrow> result_type \<Rightarrow> episode \<Rightarrow> BacktestResult" where
  "make_result name ty ep =
     \<lparr>bt_algorithm = name, bt_type = ty, returns = ep_returns ep,
      cumulativeReturns = ep_cumulative ep, dates = ep_dates ep,
      metrics = calculate_metrics (ep_returns ep) (ep_cumulative ep)\<rparr>"

text \<open>
  Modelled from the spec: the loader of \<^verbatim>\<open>backtest_service.py\<close> is not in the sources.
  A model artifact can be missing or fail to load; \<^verbatim>\<open>IMPLEMENTATION_COMPLETE.md\<close>
  describes the steps: look for
  \<^verbatim>\<open>outputs/{job_id}/models/{algorithm}/actor.pth\<close>, then for \<^verbatim>\<open>actor_final.pth\<close>, and
  load the weights of the file found. \<open>files\<close> is the output directory, \<open>deserialize\<close>
  fails on a file that does not hold a model.
\<close>

datatype load_failure = ModelNotFound | LoadFailed

definition actor_path :: "string \<Rightarrow> string \<Rightarrow> string \<Rightarrow> string" where
  "actor_path job_id algo file = ''outputs/'' @ job_id @ ''/models/'' @ algo @ ''/'' @ file"

definition load_model ::
  "(string \<rightharpoonup> 'f) \<Rightarrow> ('f \<Rightarrow> 'm option) \<Rightarrow> string \<Rightarrow> string \<Rightarrow> load_failure + 'm" where
  "load_model files deserialize job_id algo =
     (let found = (case files (actor_path job_id algo ''actor.pth'') of
                     Some f \<Rightarrow> Some f
                   | None \<Rightarrow> files (actor_path job_id algo ''actor_final.pth''))
      in case found of
           None \<Rightarrow> Inl ModelNotFound
         | Some f \<Rightarrow> (case deserialize f of None \<Rightarrow> Inl LoadFailed | Some m \<Rightarrow> Inr m))"

text \<open>
  Modelled from the spec: \<^verbatim>\<open>_backtest_drl_model\<close> and its fallback are described in the
  sources, not defined. A loaded agent is replayed; when the artifact is missing or does
  not load, the replay is driven by the pseudo-random policy seeded from job id and
  algorithm (\<open>seed_of\<close>), and the failure is recorded in the backtest log. Either way the
  entry is a result of a trained-agent replay.
\<close>

definition backtest_drl_model ::
  "(string \<rightharpoonup> 'f) \<Rightarrow> ('f \<Rightarrow> 'm option) \<Rightarrow> (string \<Rightarrow> string \<Rightarrow> nat) \<Rightarrow> ('m policy \<Rightarrow> episode) \<Rightarrow>
   string \<Rightarrow> string \<Rightarrow> BacktestResult \<times> (string \<times> load_failure) list" where
  "backtest_drl_model files deserialize seed_of replay job_id algo =
     (case load_model files deserialize job_id algo of
        Inr m \<Rightarrow> (make_result algo Drl (replay (AgentPolicy m)), [])
      | Inl failure \<Rightarrow>
          (make_result algo Drl (replay (SeededRandom (seed_of job_id algo))), [(algo, failure)]))"

text \<open>
  A job as the backtest reads it: the algorithms with the status their training reached.
\<close>

record job =
  trained :: "(string \<times> progress_status) list"

definition completed_algorithms :: "job \<Rightarrow> string list" where
  "completed_algorithms j = map fst (filter (\<lambda>(algo, s). s = Completed) (trained j))"

datatype backtest_error = JobNotFound

record backtest_run =
  run_results :: "BacktestResult list"
  run_failures :: "(string \<times> load_failure) list"

text \<open>
  Modelled from the spec: \<^verbatim>\<open>run_backtest\<close> is not in the sources. For each completed
  algorithm of the job its agent is replayed (or the fallback), then each requested
  baseline; only a job that does not exist aborts, before any work begins.
\<close>

definition run_backtest ::
  "(string \<rightharpoonup> job) \<Rightarrow> (string \<rightharpoonup> 'f) \<Rightarrow> ('f \<Rightarrow> 'm option) \<Rightarrow> (string \<Rightarrow> string \<Rightarrow> nat) \<Rightarrow>
   ('m policy \<Rightarrow> episode) \<Rightarrow> string \<Rightarrow> string list \<Rightarrow> backtest_error + backtest_run" where
  "run_backtest jobs files deserialize seed_of replay job_id baseline_strategies =
     (case jobs job_id of
        None \<Rightarrow> Inl JobNotFound
      | Some j \<Rightarrow>
          (let drl = map (backtest_drl_model files deserialize seed_of replay job_id)
                         (completed_algorithms j);
               baselines = map (\<lambda>b. make_result b Baseline (replay (BaselinePolicy b)))
                               baseline_strategies
           in Inr \<lparr>run_results = map fst drl @ baselines,
                   run_failures = concat (map snd drl)\<rparr>))"

section \<open>Backend: from an action to target weights\<close>

text \<open>
  Modelled from the spec: \<^verbatim>\<open>stock_env.py\<close> and \<^verbatim>\<open>discrete_wrapper.py\<close> are not in the
  sources. The raw action of a continuous-action algorithm is passed through softmax;
  the weights of the symbols and the implicit cash weight sum to 1, the cash weight
  being the buffer (5 percent by default). Over the reals: overflow of the exponential
  in floating point is not part of the model.
\<close>

definition softmax :: "real list \<Rightarrow> real list" where
  "softmax xs = map (\<lambda>x. exp x / (\<Sum>y\<leftarrow>xs. exp y)) xs"

definition default_cash_buffer :: real where
  "default_cash_buffer = 5 / 100"

definition target_weights :: "real \<Rightarrow> real list \<Rightarrow> real list" where
  "target_weights cash_buffer raw = map (\<lambda>p. (1 - cash_buffer) * p) (softmax raw)"

text \<open>
  Modelled from the spec: a discrete action is one of \<open>3 ^ N\<close> indices; its \<open>N\<close> digits
  to the base 3 choose per symbol strong sell (-1.0), hold (0.0) or strong buy (+1.0),
  and the vector so decoded is the raw action of the environment.
\<close>

fun decode_action :: "nat \<Rightarrow> nat \<Rightarrow> real list" where
  "decode_action 0 idx = []"
| "decode_action (Suc n) idx = (real (idx mod 3) - 1) # decode_action n (idx div 3)"

definition discrete_target_weights :: "real \<Rightarrow> nat \<Rightarrow> nat \<Rightarrow> real list" where
  "discrete_target_weights cash_buffer n idx = target_weights cash_buffer (decode_action n idx)"

section \<open>The training page stops polling exactly on a terminal response\<close>

lemma poll_tick_timers:
  "interval \<in> timers st \<Longrightarrow> interval \<in> timers (poll_tick interval r st) \<longleftrightarrow> \<not> stops_polling r"
  by (cases r) (simp_all add: poll_tick_def stops_polling_def Let_def)

lemma poll_tick_training:
  "training st \<Longrightarrow> training (poll_tick interval r st) \<longleftrightarrow> \<not> stops_polling r"
  by (cases r) (simp_all add: poll_tick_def stops_polling_def Let_def)

lemma poll_tick_error:
  "poll_tick interval (Inl e) st = st\<lparr>console := console st @ [''Error fetching progress:'']\<rparr>"
  by (simp add: poll_tick_def)

lemma run_polling_continues:
  "interval \<in> timers st \<Longrightarrow> training st \<Longrightarrow> list_all (\<lambda>r. \<not> stops_polling r) rs \<Longrightarrow>
   interval \<in> timers (run_polling interval rs st) \<and> training (run_polling interval rs st)"
proof (induction rs arbitrary: st)
  case Nil
  then show ?case by simp
next
  case (Cons r rs)
  then show ?case by (simp add: poll_tick_timers poll_tick_training)
qed

lemma run_polling_append:
  "interval \<in> timers st \<Longrightarrow> training st \<Longrightarrow> list_all (\<lambda>r. \<not> stops_polling r) rs \<Longrightarrow>
   run_polling interval (rs @ rs') st = run_polling interval rs' (run_polling interval rs st)"
proof (induction rs arbitrary: st)
  case Nil
  then show ?case by simp
next
  case (Cons r rs)
  then show ?case by (simp add: poll_tick_timers poll_tick_training)
qed

lemma run_polling_stopped:
  "interval \<notin> timers st \<Longrightarrow> run_polling interval rs st = st"
  by (cases rs) simp_all

text \<open>
  Claim C9. While the interval timer of \<^verbatim>\<open>startTraining\<close> runs and the training flag is
  set, one firing of the poll clears the timer, and resets the flag, exactly when the
  request succeeded and every entry of the response is completed or failed
  (\<open>stops_polling\<close>); it then also sets \<^verbatim>\<open>pollingInterval\<close> to null. A failed request
  leaves timer and flag as they were. Over a run of firings \<open>rs\<close> none of which stops,
  failed requests among them, the timer is still running, and the first stopping
  response after them ends the polling.
\<close>

theorem polling_stops_exactly_when_all_terminal:
  assumes "interval \<in> timers st" and "training st"
  shows "(interval \<notin> timers (poll_tick interval r st) \<longleftrightarrow> stops_polling r) \<and>
         (\<not> training (poll_tick interval r st) \<longleftrightarrow> stops_polling r) \<and>
         (stops_polling r \<longrightarrow> pollingInterval (poll_tick interval r st) = None) \<and>
         interval \<in> timers (poll_tick interval (Inl e) st) \<and>
         training (poll_tick interval (Inl e) st) \<and>
         (list_all (\<lambda>r. \<not> stops_polling r) rs \<longrightarrow>
            interval \<in> timers (run_polling interval rs st) \<and>
            training (run_polling interval rs st) \<and>
            (stops_polling r \<longrightarrow>
               interval \<notin> timers (run_polling interval (rs @ r # rs') st) \<and>
               \<not> training (run_polling interval (rs @ r # rs') st)))"
proof -
  have a: "interval \<notin> timers (poll_tick interval r st) \<longleftrightarrow> stops_polling r"
    using assms(1) by (simp add: poll_tick_timers)
  have b: "\<not> training (poll_tick interval r st) \<longleftrightarrow> stops_polling r"
    using assms(2) by (simp add: poll_tick_training)
  have c: "stops_polling r \<longrightarrow> pollingInterval (poll_tick interval r st) = None"
    by (cases r) (simp_all add: poll_tick_def stops_polling_def Let_def)
  have d: "interval \<in> timers (poll_tick interval (Inl e) st)"
    using assms(1) by (simp add: poll_tick_error)
  have e: "training (poll_tick interval (Inl e) st)"
    using assms(2) by (simp add: poll_tick_error)
  have f: "interval \<in> timers (run_polling interval rs st) \<and>
           training (run_polling interval rs st) \<and>
           (stops_polling r \<longrightarrow>
               interval \<notin> timers (run_polling interval (rs @ r # rs') st) \<and>
               \<not> training (run_polling interval (rs @ r # rs') st))"
    if h: "list_all (\<lambda>r. \<not> stops_polling r) rs"
  proof -
    let ?s = "run_polling interval rs st"
    have k: "interval \<in> timers ?s \<and> training ?s"
      using assms h by (rule run_polling_continues)
    have "run_polling interval (rs @ r # rs') st = run_polling interval (r # rs') ?s"
      using assms h by (rule run_polling_append)
    moreover have "stops_polling r \<Longrightarrow> run_polling interval (r # rs') ?s = poll_tick interval r ?s"
      using k by (simp add: poll_tick_timers run_polling_stopped)
    ultimately show ?thesis
      using k by (simp add: poll_tick_timers poll_tick_training)
  qed
  from a b c d e f show ?thesis by blast
qed

theorem polling_stops_exactly_when_all_terminal_witness:
  "(1::nat) \<in> timers \<lparr>training = True, shown_progress = [], shown_results = [], pollingInterval = Some 1,
        timers = {1}, toasts = [], console = []\<rparr> \<and>
   stops_polling (Inr \<lparr>jobId = ''job'', progress = [\<lparr>algorithm = ''PPO'', epoch = 5000, totalEpochs = 5000, loss = 1/4,
        reward = 3, status = Completed\<rparr>, \<lparr>algorithm = ''DQN'', epoch = 0, totalEpochs = 5000, loss = 0,
        reward = 0, status = Failed\<rparr>], results = []\<rparr>) \<and>
   1 \<in> timers (run_polling 1
        [Inl \<lparr>response_status = None, response_detail = None, error_message = ''Network Error''\<rparr>,
         Inr \<lparr>jobId = ''job'', progress = [\<lparr>algorithm = ''PPO'', epoch = 100, totalEpochs = 5000, loss = 1/2,
           reward = 1, status = Training\<rparr>], results = []\<rparr>]
        \<lparr>training = True, shown_progress = [], shown_results = [], pollingInterval = Some 1,
         timers = {1}, toasts = [], console = []\<rparr>) \<and>
   1 \<notin> timers (run_polling 1
        ([Inl \<lparr>response_status = None, response_detail = None, error_message = ''Network Error''\<rparr>,
         Inr \<lparr>jobId = ''job'', progress = [\<lparr>algorithm = ''PPO'', epoch = 100, totalEpochs = 5000, loss = 1/2,
           reward = 1, status = Training\<rparr>], results = []\<rparr>] @
         Inr \<lparr>jobId = ''job'', progress = [\<lparr>algorithm = ''PPO'', epoch = 5000, totalEpochs = 5000, loss = 1/4,
        reward = 3, status = Completed\<rparr>, \<lparr>algorithm = ''DQN'', epoch = 0, totalEpochs = 5000, loss = 0,
        reward = 0, status = Failed\<rparr>], results = []\<rparr> # [])
        \<lparr>training = True, shown_progress = [], shown_results = [], pollingInterval = Some 1,
         timers = {1}, toasts = [], console = []\<rparr>)"
proof -
  let ?st = "\<lparr>training = True, shown_progress = [], shown_results = [], pollingInterval = Some 1,
         timers = {1::nat}, toasts = [], console = []\<rparr>"
  let ?e = "\<lparr>response_status = None, response_detail = None, error_message = ''Network Error''\<rparr>"
  let ?r = "Inr \<lparr>jobId = ''job'', progress = [\<lparr>algorithm = ''PPO'', epoch = 5000, totalEpochs = 5000, loss = 1/4,
        reward = 3, status = Completed\<rparr>, \<lparr>algorithm = ''DQN'', epoch = 0, totalEpochs = 5000, loss = 0,
        reward = 0, status = Failed\<rparr>], results = []\<rparr> :: api_error + TrainingResponse"
  let ?rs = "[Inl ?e, Inr \<lparr>jobId = ''job'', progress = [\<lparr>algorithm = ''PPO'', epoch = 100, totalEpochs = 5000, loss = 1/2,
           reward = 1, status = Training\<rparr>], results = []\<rparr>] :: (api_error + TrainingResponse) list"
  have h1: "1 \<in> timers ?st" by simp
  have h2: "training ?st" by simp
  have h3: "stops_polling ?r" by (simp add: stops_polling_def is_terminal_def)
  have h4: "list_all (\<lambda>r. \<not> stops_polling r) ?rs" by (simp add: stops_polling_def is_terminal_def)
  from polling_stops_exactly_when_all_terminal [OF h1 h2, of ?r ?e ?rs "[]"] h1 h3 h4
  show ?thesis by blast
qed

section \<open>The backtesting page polls until the first answer that is not a 404\<close>

lemma pollResults_not_ready:
  "not_ready (getResults n) \<Longrightarrow>
   pollResults getResults n st = pollResults getResults (Suc n) (st\<lparr>timeouts := timeouts st @ [2000]\<rparr>)"
  by (subst pollResults.simps) (simp add: not_ready_def split: sum.splits)

lemma pollResults_ready:
  "\<not> not_ready (getResults n) \<Longrightarrow> pollResults getResults n st = Some (finish_poll (getResults n) st)"
  by (subst pollResults.simps) (simp add: not_ready_def finish_poll_def split: sum.splits)

lemma pollResults_first_answer:
  "\<forall>j<k. not_ready (getResults (n + j)) \<Longrightarrow> \<not> not_ready (getResults (n + k)) \<Longrightarrow>
   pollResults getResults n st =
     Some (finish_poll (getResults (n + k)) (st\<lparr>timeouts := timeouts st @ replicate k 2000\<rparr>))"
proof (induction k arbitrary: n st)
  case 0
  then show ?case by (simp add: pollResults_ready)
next
  case (Suc k)
  have nr: "not_ready (getResults n)" using Suc.prems(1) by force
  have "\<forall>j<k. not_ready (getResults (Suc n + j))"
    using Suc.prems(1) by (metis add_Suc_shift Suc_less_eq)
  moreover have "\<not> not_ready (getResults (Suc n + k))" using Suc.prems(2) by simp
  ultimately have "pollResults getResults (Suc n) (st\<lparr>timeouts := timeouts st @ [2000]\<rparr>) =
     Some (finish_poll (getResults (Suc n + k))
       (st\<lparr>timeouts := timeouts st @ [2000]\<rparr>\<lparr>timeouts := timeouts (st\<lparr>timeouts := timeouts st @ [2000]\<rparr>) @ replicate k 2000\<rparr>))"
    by (rule Suc.IH)
  then show ?case using nr by (simp add: pollResults_not_ready replicate_app_Cons_same)
qed

lemma pollResults_some_answer:
  assumes "pollResults getResults n st = Some y"
  shows "\<exists>k. \<not> not_ready (getResults k)"
  using assms
proof (rule pollResults.raw_induct [rotated 1, where P = "\<lambda>g n st y. \<exists>k. \<not> not_ready (g k)"])
  fix f :: "(nat \<Rightarrow> api_error + BacktestResponse) \<Rightarrow> nat \<Rightarrow> backtest_page \<Rightarrow> backtest_page option"
    and g :: "nat \<Rightarrow> api_error + BacktestResponse" and n :: nat and st y :: backtest_page
  assume IH: "\<And>g n st y. f g n st = Some y \<Longrightarrow> \<exists>k. \<not> not_ready (g k)"
  assume step: "(case g n of
        Inl err \<Rightarrow>
          if response_status err = Some 404
          then f g (Suc n) (st\<lparr>timeouts := timeouts st @ [2000]\<rparr>)
          else Some (st\<lparr>backtesting := False,
                        bt_toasts := bt_toasts st @
                          [Error (''Backtesting failed: '' @ js_or (response_detail err) (error_message err))]\<rparr>)
      | Inr backtestResults \<Rightarrow>
          Some (st\<lparr>page_results := bt_results backtestResults,
                   page_comparison := Some (comparison backtestResults),
                   backtesting := False,
                   bt_toasts := bt_toasts st @ [Success ''Backtesting completed!'']\<rparr>)) = Some y"
  show "\<exists>k. \<not> not_ready (g k)"
  proof (cases "not_ready (g n)")
    case True
    with step have "f g (Suc n) (st\<lparr>timeouts := timeouts st @ [2000]\<rparr>) = Some y"
      by (simp add: not_ready_def split: sum.splits if_splits)
    then show ?thesis by (rule IH)
  next
    case False
    then show ?thesis by blast
  qed
qed

lemma pollResults_forever:
  "\<forall>j. not_ready (getResults j) \<Longrightarrow> pollResults getResults n st = None"
  using pollResults_some_answer [of getResults n st] by (cases "pollResults getResults n st") auto

text \<open>
  Claim C10. If the first \<open>k\<close> answers of \<^verbatim>\<open>getResults\<close> are 404 and the next one is
  not, \<^verbatim>\<open>pollResults\<close> returns: it has scheduled \<open>k\<close> retries of 2000 ms each, and
  the last answer either stores results and comparison and ends the backtesting
  indicator with a success toast (a response), or ends the indicator with the failure
  toast (any other error, also one without a response). If every answer is a 404 the
  poll never returns.
\<close>

theorem pollResults_terminates_unless_404_forever:
  "((\<forall>j<k. not_ready (getResults j)) \<and> \<not> not_ready (getResults k) \<longrightarrow>
      pollResults getResults 0 st =
        Some (case getResults k of
                Inr backtestResults \<Rightarrow>
                  st\<lparr>timeouts := timeouts st @ replicate k 2000,
                     page_results := bt_results backtestResults,
                     page_comparison := Some (comparison backtestResults),
                     backtesting := False,
                     bt_toasts := bt_toasts st @ [Success ''Backtesting completed!'']\<rparr>
              | Inl err \<Rightarrow>
                  st\<lparr>timeouts := timeouts st @ replicate k 2000,
                     backtesting := False,
                     bt_toasts := bt_toasts st @
                       [Error (''Backtesting failed: '' @ js_or (response_detail err) (error_message err))]\<rparr>)) \<and>
   ((\<forall>j. not_ready (getResults j)) \<longrightarrow> pollResults getResults 0 st = None)"
proof (intro conjI impI)
  assume h: "(\<forall>j<k. not_ready (getResults j)) \<and> \<not> not_ready (getResults k)"
  then have "pollResults getResults 0 st =
     Some (finish_poll (getResults (0 + k)) (st\<lparr>timeouts := timeouts st @ replicate k 2000\<rparr>))"
    by (intro pollResults_first_answer) simp_all
  then show "pollResults getResults 0 st =
        Some (case getResults k of
                Inr backtestResults \<Rightarrow>
                  st\<lparr>timeouts := timeouts st @ replicate k 2000,
                     page_results := bt_results backtestResults,
                     page_comparison := Some (comparison backtestResults),
                     backtesting := False,
                     bt_toasts := bt_toasts st @ [Success ''Backtesting completed!'']\<rparr>
              | Inl err \<Rightarrow>
                  st\<lparr>timeouts := timeouts st @ replicate k 2000,
                     backtesting := False,
                     bt_toasts := bt_toasts st @
                       [Error (''Backtesting failed: '' @ js_or (response_detail err) (error_message err))]\<rparr>)"
    by (simp add: finish_poll_def split: sum.splits)
next
  assume "\<forall>j. not_ready (getResults j)"
  then show "pollResults getResults 0 st = None" by (rule pollResults_forever)
qed

theorem pollResults_terminates_unless_404_forever_witness:
  "pollResults
     (\<lambda>n. if n < 2
           then Inl \<lparr>response_status = Some 404, response_detail = Some ''Backtest results not found'',
                     error_message = ''Request failed with status code 404''\<rparr>
           else Inl \<lparr>response_status = Some 500, response_detail = None,
                     error_message = ''Request failed with status code 500''\<rparr>)
     0 \<lparr>backtesting = True, page_results = [], page_comparison = None, bt_toasts = [], timeouts = [2000]\<rparr>
   = Some \<lparr>backtesting = False, page_results = [], page_comparison = None,
           bt_toasts = [Error ''Backtesting failed: Request failed with status code 500''],
           timeouts = [2000, 2000, 2000]\<rparr> \<and>
   pollResults
     (\<lambda>n. Inl \<lparr>response_status = Some 404, response_detail = Some ''Backtest results not found'',
                     error_message = ''Request failed with status code 404''\<rparr>)
     0 \<lparr>backtesting = True, page_results = [], page_comparison = None, bt_toasts = [], timeouts = [2000]\<rparr>
   = None"
  using pollResults_terminates_unless_404_forever
     [of 2 "\<lambda>n. if n < 2
           then Inl \<lparr>response_status = Some 404, response_detail = Some ''Backtest results not found'',
                     error_message = ''Request failed with status code 404''\<rparr>
           else Inl \<lparr>response_status = Some 500, response_detail = None,
                     error_message = ''Request failed with status code 500''\<rparr>"
         "\<lparr>backtesting = True, page_results = [], page_comparison = None, bt_toasts = [], timeouts = [2000]\<rparr>"]
    pollResults_terminates_unless_404_forever
     [of 0 "\<lambda>n. Inl \<lparr>response_status = Some 404, response_detail = Some ''Backtest results not found'',
                     error_message = ''Request failed with status code 404''\<rparr>"
         "\<lparr>backtesting = True, page_results = [], page_comparison = None, bt_toasts = [], timeouts = [2000]\<rparr>"]
  by (simp add: not_ready_def js_or_def numeral_2_eq_2)

section \<open>Progress records carry the actual step counts\<close>

lemma run_steps_snoc:
  "run_steps fn (reps @ [rep]) cs = on_step fn rep (run_steps fn reps cs)"
  by (induction reps arbitrary: cs) simp_all

lemma on_step_callback_store:
  "snd (on_step (Some (progress_callback job_id algo total_steps)) rep cs) =
     (snd cs)((job_id, algo) \<mapsto>
        \<lparr>algorithm = algo, epoch = steps_done rep, totalEpochs = total_steps,
         loss = avg_loss rep, reward = avg_reward rep, status = Training\<rparr>)"
  by (simp add: on_step_def progress_callback_def update_progress_def Let_def)

lemma on_step_last_loss:
  "last_loss (fst (on_step fn rep cs)) = avg_loss rep"
  by (cases fn) (simp_all add: on_step_def Let_def)

lemma run_steps_other_keys:
  "k \<noteq> (job_id, algo) \<Longrightarrow>
   snd (run_steps (Some (progress_callback job_id algo total_steps)) reps cs) k = snd cs k"
  by (induction reps arbitrary: cs) (simp_all add: on_step_callback_store)

lemma run_steps_last_record:
  "reps \<noteq> [] \<Longrightarrow>
   snd (run_steps (Some (progress_callback job_id algo total_steps)) reps cs) (job_id, algo) =
     Some \<lparr>algorithm = algo, epoch = steps_done (last reps), totalEpochs = total_steps,
           loss = avg_loss (last reps), reward = avg_reward (last reps), status = Training\<rparr>"
proof (induction reps rule: rev_induct)
  case Nil
  then show ?case by simp
next
  case (snoc rep reps)
  show ?case by (simp add: run_steps_snoc on_step_callback_store)
qed

lemma run_steps_last_loss:
  "reps \<noteq> [] \<Longrightarrow> last_loss (fst (run_steps fn reps cs)) = avg_loss (last reps)"
proof (induction reps rule: rev_induct)
  case Nil
  then show ?case by simp
next
  case (snoc rep reps)
  show ?case by (simp add: run_steps_snoc on_step_last_loss)
qed

lemma store_during_eq:
  "store_during job_id algo total_steps reps store =
     store((job_id, algo) \<mapsto> rolling_record algo total_steps reps)"
proof (rule ext)
  fix k
  show "store_during job_id algo total_steps reps store k =
     (store((job_id, algo) \<mapsto> rolling_record algo total_steps reps)) k"
  proof (cases "k = (job_id, algo)")
    case True
    then show ?thesis
      by (cases "reps = []")
         (simp_all add: store_during_def rolling_record_def run_steps_last_record update_progress_def)
  next
    case False
    then show ?thesis
      by (simp add: store_during_def run_steps_other_keys update_progress_def)
  qed
qed

lemma train_algorithm_eq:
  "train_algorithm job_id algo total_steps reps eval_reward eval_std training_time store =
     store((job_id, algo) \<mapsto>
       \<lparr>algorithm = algo, epoch = total_steps, totalEpochs = total_steps,
        loss = (if reps = [] then 0 else avg_loss (last reps)),
        reward = eval_reward, status = Completed\<rparr>)"
proof -
  let ?cs = "run_steps (Some (progress_callback job_id algo total_steps)) reps
               (new_ProgressCallback total_steps, update_progress job_id algo 0 total_steps 0 0 Training store)"
  have l: "last_loss (fst ?cs) = (if reps = [] then 0 else avg_loss (last reps))"
    by (simp add: run_steps_last_loss new_ProgressCallback_def)
  have s: "snd ?cs = store_during job_id algo total_steps reps store"
    by (simp add: store_during_def)
  have "train_algorithm job_id algo total_steps reps eval_reward eval_std training_time store =
        update_progress job_id algo total_steps total_steps (last_loss (fst ?cs)) eval_reward Completed (snd ?cs)"
    by (simp add: train_algorithm_def train_def Let_def dict_get_def)
  then show ?thesis
    unfolding l s store_during_eq by (simp add: update_progress_def)
qed

lemma run_steps_append:
  "run_steps fn (reps @ later) cs = run_steps fn later (run_steps fn reps cs)"
  by (induction reps arbitrary: cs) simp_all

lemma train_store:
  "snd (train fn total_steps reps final_reward final_std training_time store) =
     snd (run_steps fn reps (new_ProgressCallback total_steps, store))"
  by (simp add: train_def Let_def)

lemma train_is_store_during:
  "snd (train (Some (progress_callback job_id algo total_steps)) total_steps reps
          eval_reward eval_std training_time
          (update_progress job_id algo 0 total_steps 0 0 Training store)) =
   store_during job_id algo total_steps reps store"
  by (simp add: train_store store_during_def)

lemma store_during_append:
  "store_during job_id algo total_steps (reps @ later) store =
     snd (run_steps (Some (progress_callback job_id algo total_steps)) later
            (fst (run_steps (Some (progress_callback job_id algo total_steps)) reps
                    (new_ProgressCallback total_steps,
                     update_progress job_id algo 0 total_steps 0 0 Training store)),
             store_during job_id algo total_steps reps store))"
  by (simp add: store_during_def run_steps_append)

lemma store_during_snoc:
  "store_during job_id algo total_steps (reps @ [rep]) store =
     (store_during job_id algo total_steps reps store)((job_id, algo) \<mapsto>
        \<lparr>algorithm = algo, epoch = steps_done rep, totalEpochs = total_steps,
         loss = avg_loss rep, reward = avg_reward rep, status = Training\<rparr>)"
  by (simp add: store_during_def run_steps_snoc on_step_callback_store)

text \<open>
  Claim C4, as the code has it. The store the trainer leaves after any list of reports
  \<open>reps\<close> is the store a client reads at that moment, and a longer run passes through
  it: the reports that follow start from it. In that store the record of the
  (job, algorithm) pair carries the step count of the last report, 0 before the first,
  and the configured total, as they are: whatever a client computes from the two fields
  it computes from the actual numbers. The terminal update carries the configured total
  in both fields.
\<close>

theorem progress_carries_actual_step_counts:
  "snd (train (Some (progress_callback job_id algo total_steps)) total_steps reps
          eval_reward eval_std training_time
          (update_progress job_id algo 0 total_steps 0 0 Training store)) =
     store_during job_id algo total_steps reps store \<and>
   store_during job_id algo total_steps (reps @ later) store =
     snd (run_steps (Some (progress_callback job_id algo total_steps)) later
            (fst (run_steps (Some (progress_callback job_id algo total_steps)) reps
                    (new_ProgressCallback total_steps,
                     update_progress job_id algo 0 total_steps 0 0 Training store)),
             store_during job_id algo total_steps reps store)) \<and>
   map_option (\<lambda>p. (epoch p, totalEpochs p)) (store_during job_id algo total_steps [] store (job_id, algo)) =
     Some (0, total_steps) \<and>
   (reps \<noteq> [] \<longrightarrow>
      map_option (\<lambda>p. (epoch p, totalEpochs p))
        (store_during job_id algo total_steps reps store (job_id, algo)) =
      Some (steps_done (last reps), total_steps)) \<and>
   map_option (\<lambda>p. (epoch p, totalEpochs p))
       (train_algorithm job_id algo total_steps reps eval_reward eval_std training_time store (job_id, algo)) =
     Some (total_steps, total_steps)"
proof (intro conjI impI)
  show "snd (train (Some (progress_callback job_id algo total_steps)) total_steps reps
          eval_reward eval_std training_time
          (update_progress job_id algo 0 total_steps 0 0 Training store)) =
     store_during job_id algo total_steps reps store"
    by (rule train_is_store_during)
  show "store_during job_id algo total_steps (reps @ later) store =
     snd (run_steps (Some (progress_callback job_id algo total_steps)) later
            (fst (run_steps (Some (progress_callback job_id algo total_steps)) reps
                    (new_ProgressCallback total_steps,
                     update_progress job_id algo 0 total_steps 0 0 Training store)),
             store_during job_id algo total_steps reps store))"
    by (rule store_during_append)
  show "map_option (\<lambda>p. (epoch p, totalEpochs p))
          (store_during job_id algo total_steps [] store (job_id, algo)) = Some (0, total_steps)"
    by (simp add: store_during_eq rolling_record_def)
  show "map_option (\<lambda>p. (epoch p, totalEpochs p))
       (train_algorithm job_id algo total_steps reps eval_reward eval_std training_time store (job_id, algo)) =
     Some (total_steps, total_steps)"
    by (simp add: train_algorithm_eq)
next
  assume "reps \<noteq> []"
  then show "map_option (\<lambda>p. (epoch p, totalEpochs p))
        (store_during job_id algo total_steps reps store (job_id, algo)) =
      Some (steps_done (last reps), total_steps)"
    by (simp add: store_during_eq rolling_record_def)
qed

theorem progress_carries_actual_step_counts_witness:
  "map_option (\<lambda>p. (epoch p, totalEpochs p))
     (store_during ''job'' ''PPO'' 5000
        [\<lparr>steps_done = 100, avg_loss = 1, avg_reward = 0\<rparr>,
         \<lparr>steps_done = 2500, avg_loss = 1/2, avg_reward = 3\<rparr>] Map.empty (''job'', ''PPO'')) =
   Some (2500, 5000)"
proof -
  have h: "[\<lparr>steps_done = 100, avg_loss = 1, avg_reward = 0\<rparr>,
            \<lparr>steps_done = 2500, avg_loss = 1/2, avg_reward = (3::real)\<rparr>] \<noteq> []"
    by simp
  from progress_carries_actual_step_counts [of "''job''" "''PPO''" 5000
       "[\<lparr>steps_done = 100, avg_loss = 1, avg_reward = 0\<rparr>,
         \<lparr>steps_done = 2500, avg_loss = 1/2, avg_reward = 3\<rparr>]" 0 0 0 Map.empty "[]"] h
  show ?thesis by simp
qed

text \<open>
  Claim C4 as stated fails for the terminal update: after a training of 5000 requested
  steps in which the trainer counted 5120 (a last rollout run to its end), the terminal
  record says 5000 steps.
\<close>

theorem terminal_step_count_is_the_configured_total:
  "map_option epoch
     (train_algorithm ''job'' ''PPO'' 5000 [\<lparr>steps_done = 5120, avg_loss = 1/2, avg_reward = 5\<rparr>]
        7 1 10 Map.empty (''job'', ''PPO'')) = Some 5000 \<and>
   steps_done (last [\<lparr>steps_done = 5120, avg_loss = 1/2, avg_reward = 5\<rparr>]) = 5120 \<and>
   map_option epoch
     (train_algorithm ''job'' ''PPO'' 5000 [\<lparr>steps_done = 5120, avg_loss = 1/2, avg_reward = 5\<rparr>]
        7 1 10 Map.empty (''job'', ''PPO''))
   \<noteq> Some (steps_done (last [\<lparr>steps_done = 5120, avg_loss = 1/2, avg_reward = 5\<rparr>]))"
  by (simp add: train_algorithm_def train_def run_steps.simps on_step_def progress_callback_def
        update_progress_def new_ProgressCallback_def dict_get_def Let_def)

section \<open>The terminal record keeps the last rolling loss\<close>

text \<open>
  Claim C7, as the code has it. A record, once written, is not rewritten retroactively:
  every write for a (job, algorithm) pair leaves the records of all other pairs as they
  were, and the write of a report puts the snapshot of that report in the place of the
  record of its pair, revising no field of what an earlier report wrote; so during
  training the record is the snapshot of the last report (the initial record before the
  first). The terminal update is the one write that revises the record in place: it
  replaces step count, reward and status of the last snapshot and keeps its loss. The
  terminal loss is the last rolling loss (zero only when the trainer never reported);
  the terminal reward is the reward of the evaluation that closes the training.
\<close>

theorem terminal_record_keeps_last_loss:
  "(k \<noteq> (job_id, algo) \<longrightarrow>
      store_during job_id algo total_steps reps store k = store k \<and>
      train_algorithm job_id algo total_steps reps eval_reward eval_std training_time store k = store k) \<and>
   snd (train (Some (progress_callback job_id algo total_steps)) total_steps reps
          eval_reward eval_std training_time
          (update_progress job_id algo 0 total_steps 0 0 Training store)) =
     store_during job_id algo total_steps reps store \<and>
   store_during job_id algo total_steps (reps @ [rep]) store =
     (store_during job_id algo total_steps reps store)((job_id, algo) \<mapsto>
        \<lparr>algorithm = algo, epoch = steps_done rep, totalEpochs = total_steps,
         loss = avg_loss rep, reward = avg_reward rep, status = Training\<rparr>) \<and>
   store_during job_id algo total_steps reps store =
     store((job_id, algo) \<mapsto> rolling_record algo total_steps reps) \<and>
   train_algorithm job_id algo total_steps reps eval_reward eval_std training_time store =
     (store_during job_id algo total_steps reps store)((job_id, algo) \<mapsto>
        (rolling_record algo total_steps reps)
          \<lparr>epoch := total_steps, reward := eval_reward, status := Completed\<rparr>) \<and>
   map_option loss
       (train_algorithm job_id algo total_steps reps eval_reward eval_std training_time store (job_id, algo)) =
     Some (if reps = [] then 0 else avg_loss (last reps))"
proof (intro conjI impI)
  assume "k \<noteq> (job_id, algo)"
  then show "store_during job_id algo total_steps reps store k = store k"
    and "train_algorithm job_id algo total_steps reps eval_reward eval_std training_time store k = store k"
    by (simp_all add: store_during_eq train_algorithm_eq)
next
  show "snd (train (Some (progress_callback job_id algo total_steps)) total_steps reps
          eval_reward eval_std training_time
          (update_progress job_id algo 0 total_steps 0 0 Training store)) =
     store_during job_id algo total_steps reps store"
    by (rule train_is_store_during)
  show "store_during job_id algo total_steps (reps @ [rep]) store =
     (store_during job_id algo total_steps reps store)((job_id, algo) \<mapsto>
        \<lparr>algorithm = algo, epoch = steps_done rep, totalEpochs = total_steps,
         loss = avg_loss rep, reward = avg_reward rep, status = Training\<rparr>)"
    by (rule store_during_snoc)
  show "store_during job_id algo total_steps reps store =
          store((job_id, algo) \<mapsto> rolling_record algo total_steps reps)"
    by (rule store_during_eq)
  have kept: "(rolling_record algo total_steps reps)
                \<lparr>epoch := total_steps, reward := eval_reward, status := Completed\<rparr> =
              \<lparr>algorithm = algo, epoch = total_steps, totalEpochs = total_steps,
               loss = (if reps = [] then 0 else avg_loss (last reps)),
               reward = eval_reward, status = Completed\<rparr>"
    by (simp add: rolling_record_def)
  show "train_algorithm job_id algo total_steps reps eval_reward eval_std training_time store =
     (store_during job_id algo total_steps reps store)((job_id, algo) \<mapsto>
        (rolling_record algo total_steps reps)
          \<lparr>epoch := total_steps, reward := eval_reward, status := Completed\<rparr>)"
    unfolding kept by (simp add: train_algorithm_eq store_during_eq)
  show "map_option loss
       (train_algorithm job_id algo total_steps reps eval_reward eval_std training_time store (job_id, algo)) =
     Some (if reps = [] then 0 else avg_loss (last reps))"
    by (simp add: train_algorithm_eq)
qed

theorem terminal_record_keeps_last_loss_witness:
  "train_algorithm ''job'' ''PPO'' 5000 [\<lparr>steps_done = 5000, avg_loss = 1/2, avg_reward = 5\<rparr>] 7 1 10
     [(''job'', ''DQN'') \<mapsto> \<lparr>algorithm = ''DQN'', epoch = 5000, totalEpochs = 5000, loss = 1/4,
                              reward = 2, status = Completed\<rparr>] (''job'', ''DQN'') =
   Some \<lparr>algorithm = ''DQN'', epoch = 5000, totalEpochs = 5000, loss = 1/4, reward = 2, status = Completed\<rparr> \<and>
   map_option loss
     (train_algorithm ''job'' ''PPO'' 5000 [\<lparr>steps_done = 5000, avg_loss = 1/2, avg_reward = 5\<rparr>] 7 1 10
        [(''job'', ''DQN'') \<mapsto> \<lparr>algorithm = ''DQN'', epoch = 5000, totalEpochs = 5000, loss = 1/4,
                                 reward = 2, status = Completed\<rparr>] (''job'', ''PPO'')) = Some (1/2)"
proof -
  let ?reps = "[\<lparr>steps_done = 5000, avg_loss = 1/2, avg_reward = 5\<rparr>]"
  let ?store = "[(''job'', ''DQN'') \<mapsto> \<lparr>algorithm = ''DQN'', epoch = 5000, totalEpochs = 5000,
                   loss = 1/4, reward = 2, status = Completed\<rparr>]"
  have h: "(''job'', ''DQN'') \<noteq> (''job'', ''PPO'')" by simp
  note t = terminal_record_keeps_last_loss
      [where k = "(''job'', ''DQN'')" and job_id = "''job''" and algo = "''PPO''" and total_steps = 5000
         and reps = ?reps and store = ?store and eval_reward = 7 and eval_std = 1 and training_time = 10]
  from t h have a: "train_algorithm ''job'' ''PPO'' 5000 ?reps 7 1 10 ?store (''job'', ''DQN'') =
                      ?store (''job'', ''DQN'')"
    by blast
  from t have b: "map_option loss (train_algorithm ''job'' ''PPO'' 5000 ?reps 7 1 10 ?store (''job'', ''PPO'')) =
                    Some (if ?reps = [] then 0 else avg_loss (last ?reps))"
    by blast
  from a b show ?thesis by simp
qed

text \<open>
  Claim C7 as stated fails for the reward: with a last rolling reward of 5 and an
  evaluation reward of 7 the terminal record shows 7.
\<close>

theorem terminal_reward_is_not_rolling_reward:
  "map_option reward
     (train_algorithm ''job'' ''PPO'' 5000 [\<lparr>steps_done = 5000, avg_loss = 1/2, avg_reward = 5\<rparr>]
        7 1 10 Map.empty (''job'', ''PPO''))
   \<noteq> Some (avg_reward (last [\<lparr>steps_done = 5000, avg_loss = 1/2, avg_reward = 5\<rparr>]))"
  by (simp add: train_algorithm_def train_def run_steps.simps on_step_def progress_callback_def
        update_progress_def new_ProgressCallback_def dict_get_def Let_def)

section \<open>A low step count warns and never fails a job\<close>

lemma warn_timesteps_eq:
  "warn_timesteps tbl algorithms total_steps lg =
     lg @ map (\<lambda>algo. \<lparr>level = WARNING, about = algo, recommended = dict_get tbl algo 3000,
                         requested = total_steps\<rparr>)
            (filter (\<lambda>algo. total_steps < dict_get tbl algo 3000) algorithms)"
  by (induction algorithms arbitrary: lg) (simp_all add: Let_def)

lemma supervise_other_keys:
  "k \<noteq> (job_id, algo) \<Longrightarrow> supervise_algorithm job_id total_steps outcome algo store k = store k"
  by (cases "outcome algo")
     (simp_all add: supervise_algorithm_def train_algorithm_eq store_during_eq Let_def)

lemma supervise_status:
  "map_option status (supervise_algorithm job_id total_steps outcome algo store (job_id, algo)) =
     Some (if ran_through (outcome algo) then Completed else Failed)"
  by (cases "outcome algo")
     (simp_all add: supervise_algorithm_def train_algorithm_eq store_during_eq Let_def ran_through_def)

lemma fold_supervise_status:
  "algo \<in> set algorithms \<Longrightarrow>
   map_option status (fold (supervise_algorithm job_id total_steps outcome) algorithms store (job_id, algo)) =
     Some (if ran_through (outcome algo) then Completed else Failed)"
proof (induction algorithms arbitrary: store rule: rev_induct)
  case Nil
  then show ?case by simp
next
  case (snoc a as)
  show ?case
  proof (cases "a = algo")
    case True
    then show ?thesis by (simp add: supervise_status)
  next
    case False
    then have "algo \<in> set as" using snoc.prems by simp
    then show ?thesis using False snoc.IH by (simp add: supervise_other_keys)
  qed
qed

lemma submit_job_status:
  "algo \<in> set algorithms \<Longrightarrow>
   map_option status (records (submit_job tbl job_id algorithms total_steps outcome sv) (job_id, algo)) =
     Some (if ran_through (outcome algo) then Completed else Failed)"
  by (simp add: submit_job_def Let_def fold_supervise_status)

lemma job_status_eq:
  "job_status job_id algorithms (submit_job tbl job_id algorithms total_steps outcome sv) =
     map (\<lambda>algo. if ran_through (outcome algo) then Completed else Failed) algorithms"
proof -
  have "(case records (submit_job tbl job_id algorithms total_steps outcome sv) (job_id, algo) of
           Some p \<Rightarrow> status p | None \<Rightarrow> Pending) =
        (if ran_through (outcome algo) then Completed else Failed)"
    if "algo \<in> set algorithms" for algo
    using submit_job_status [OF that, of tbl job_id total_steps outcome sv]
    by (auto split: option.splits)
  then show ?thesis by (simp add: job_status_def)
qed

text \<open>
  Claim C8. Submitting a job adds to the job's log exactly one entry per requested
  algorithm whose recommended floor (3000 for an algorithm without an entry in the
  table) is above the requested step count, each at the level of a warning, and nothing
  else. The statuses the algorithms reach depend on how their training went only:
  completed when it ran through, failed when it raised; the progress records are the
  same for every table of floors. So an algorithm below its floor whose training runs
  through is warned about and completes.
\<close>

theorem low_timesteps_warn_and_proceed:
  "job_log (submit_job tbl job_id algorithms total_steps outcome sv) =
     job_log sv @ map (\<lambda>algo. \<lparr>level = WARNING, about = algo, recommended = dict_get tbl algo 3000,
                                 requested = total_steps\<rparr>)
                    (filter (\<lambda>algo. total_steps < dict_get tbl algo 3000) algorithms) \<and>
   job_status job_id algorithms (submit_job tbl job_id algorithms total_steps outcome sv) =
     map (\<lambda>algo. if ran_through (outcome algo) then Completed else Failed) algorithms \<and>
   records (submit_job tbl job_id algorithms total_steps outcome sv) =
     records (submit_job tbl' job_id algorithms total_steps outcome sv) \<and>
   (algo \<in> set algorithms \<and> total_steps < dict_get tbl algo 3000 \<and> ran_through (outcome algo) \<longrightarrow>
      \<lparr>level = WARNING, about = algo, recommended = dict_get tbl algo 3000, requested = total_steps\<rparr>
        \<in> set (job_log (submit_job tbl job_id algorithms total_steps outcome sv)) \<and>
      map_option status (records (submit_job tbl job_id algorithms total_steps outcome sv) (job_id, algo)) =
        Some Completed)"
proof -
  have lg: "job_log (submit_job tbl job_id algorithms total_steps outcome sv) =
     job_log sv @ map (\<lambda>algo. \<lparr>level = WARNING, about = algo, recommended = dict_get tbl algo 3000,
                                 requested = total_steps\<rparr>)
                    (filter (\<lambda>algo. total_steps < dict_get tbl algo 3000) algorithms)"
    by (simp add: submit_job_def Let_def warn_timesteps_eq)
  have recs: "records (submit_job tbl job_id algorithms total_steps outcome sv) =
     records (submit_job tbl' job_id algorithms total_steps outcome sv)"
    by (simp add: submit_job_def Let_def)
  have one: "\<lparr>level = WARNING, about = algo, recommended = dict_get tbl algo 3000, requested = total_steps\<rparr>
        \<in> set (job_log (submit_job tbl job_id algorithms total_steps outcome sv)) \<and>
      map_option status (records (submit_job tbl job_id algorithms total_steps outcome sv) (job_id, algo)) =
        Some Completed"
    if "algo \<in> set algorithms \<and> total_steps < dict_get tbl algo 3000 \<and> ran_through (outcome algo)"
  proof -
    from that have "algo \<in> set (filter (\<lambda>algo. total_steps < dict_get tbl algo 3000) algorithms)"
      by simp
    then have "\<lparr>level = WARNING, about = algo, recommended = dict_get tbl algo 3000, requested = total_steps\<rparr>
        \<in> set (job_log (submit_job tbl job_id algorithms total_steps outcome sv))"
      unfolding lg by (simp add: image_iff)
    then show ?thesis using that by (simp add: submit_job_status)
  qed
  from lg job_status_eq recs one show ?thesis by blast
qed

theorem low_timesteps_warn_and_proceed_witness:
  "\<lparr>level = WARNING, about = ''SAC'', recommended = 8000, requested = 3000\<rparr>
     \<in> set (job_log (submit_job MIN_TIMESTEPS_RECOMMENDED ''job'' [''SAC'', ''A2C''] 3000
               (\<lambda>algo. Trained [\<lparr>steps_done = 3000, avg_loss = 1/2, avg_reward = 2\<rparr>] 1 0 60)
               \<lparr>records = Map.empty, job_log = []\<rparr>)) \<and>
   map_option status (records (submit_job MIN_TIMESTEPS_RECOMMENDED ''job'' [''SAC'', ''A2C''] 3000
               (\<lambda>algo. Trained [\<lparr>steps_done = 3000, avg_loss = 1/2, avg_reward = 2\<rparr>] 1 0 60)
               \<lparr>records = Map.empty, job_log = []\<rparr>) (''job'', ''SAC'')) = Some Completed"
proof -
  have fl: "dict_get MIN_TIMESTEPS_RECOMMENDED ''SAC'' 3000 = 8000"
    by (simp add: dict_get_def MIN_TIMESTEPS_RECOMMENDED_def)
  have h: "''SAC'' \<in> set [''SAC'', ''A2C''] \<and> (3000::int) < dict_get MIN_TIMESTEPS_RECOMMENDED ''SAC'' 3000 \<and>
     ran_through (Trained [\<lparr>steps_done = 3000, avg_loss = 1/2, avg_reward = 2\<rparr>] 1 0 60)"
    by (simp add: fl ran_through_def)
  from low_timesteps_warn_and_proceed [of MIN_TIMESTEPS_RECOMMENDED "''job''" "[''SAC'', ''A2C'']" 3000
      "\<lambda>algo. Trained [\<lparr>steps_done = 3000, avg_loss = 1/2, avg_reward = 2\<rparr>] 1 0 60"
      "\<lparr>records = Map.empty, job_log = []\<rparr>" MIN_TIMESTEPS_RECOMMENDED_optimized "''SAC''"] h
  show ?thesis unfolding fl by blast
qed

section \<open>The final return rate is recomputed from the portfolio state\<close>

text \<open>
  Claim C1. With a non-zero initial amount the evaluation returns the total asset value
  of the portfolio state (cash plus holdings at the current closing prices) minus the
  initial amount, over the initial amount; the environment's running accumulator of
  cumulative return has no influence on it.
\<close>

theorem final_return_rate_from_portfolio_state:
  assumes "initial_amount env \<noteq> 0"
  shows "evaluate_return_rate env =
           Inr ((cash env + (\<Sum>(h, p) \<leftarrow> zip (holdings env) (close_price env (day_index env)). h * p)
                 - initial_amount env) / initial_amount env) \<and>
         evaluate_return_rate (env\<lparr>cumulative_returns := c\<rparr>) = evaluate_return_rate env"
proof
  show "evaluate_return_rate env =
           Inr ((cash env + (\<Sum>(h, p) \<leftarrow> zip (holdings env) (close_price env (day_index env)). h * p)
                 - initial_amount env) / initial_amount env)"
    using assms by (simp add: evaluate_return_rate_def get_total_asset_def Let_def)
  have "get_total_asset (env\<lparr>cumulative_returns := c\<rparr>) = get_total_asset env"
    by (simp add: get_total_asset_def)
  then show "evaluate_return_rate (env\<lparr>cumulative_returns := c\<rparr>) = evaluate_return_rate env"
    by (simp add: evaluate_return_rate_def)
qed

theorem final_return_rate_from_portfolio_state_witness:
  "evaluate_return_rate
     \<lparr>initial_amount = 1000000, cash = 100000, holdings = [10000], day_index = 10,
      close_price = (\<lambda>d. [100 + real d]), cumulative_returns = 1\<rparr> = Inr (1 / 5) \<and>
   evaluate_return_rate_stale
     \<lparr>initial_amount = 1000000, cash = 100000, holdings = [10000], day_index = 10,
      close_price = (\<lambda>d. [100 + real d]), cumulative_returns = 1\<rparr> = 0"
  using final_return_rate_from_portfolio_state
    [of "\<lparr>initial_amount = 1000000, cash = 100000, holdings = [10000], day_index = 10,
          close_price = (\<lambda>d. [100 + real d]), cumulative_returns = 1\<rparr>" 1]
  by (simp add: evaluate_return_rate_stale_def)

section \<open>The Sharpe ratio of a series without variance is zero\<close>

lemma mean_nonempty: "xs \<noteq> [] \<Longrightarrow> mean xs = Inr (sum_list xs / real (length xs))"
  by (simp add: mean_def checked_div_def)

lemma variance_nonempty:
  "xs \<noteq> [] \<Longrightarrow>
   variance xs = Inr ((\<Sum>x\<leftarrow>xs. (x - sum_list xs / real (length xs))\<^sup>2) / real (length xs))"
  by (simp add: variance_def mean_nonempty checked_div_def)

lemma sum_squares_nonneg: "0 \<le> (\<Sum>x\<leftarrow>xs. (x - (m::real))\<^sup>2)"
  by (rule sum_list_nonneg) auto

lemma sharpe_zero_variance:
  assumes "mean xs = Inr m" and "variance xs = Inr 0"
  shows "calculate_sharpe_ratio xs = Inr 0"
  using assms by (simp add: calculate_sharpe_ratio_def std_def)

lemma sharpe_positive_variance:
  assumes "mean xs = Inr m" and "variance xs = Inr v" and "0 < v"
  shows "calculate_sharpe_ratio xs = Inr (m / sqrt v * sqrt 252)"
proof -
  have "sqrt v \<noteq> 0" using assms(3) by simp
  then show ?thesis
    using assms(1,2) by (simp add: calculate_sharpe_ratio_def std_def checked_div_def)
qed

lemma variance_replicate:
  assumes "0 < n"
  shows "mean (replicate n c) = Inr c" and "variance (replicate n c) = Inr 0"
proof -
  have ne: "replicate n c \<noteq> []" using assms by simp
  have m: "sum_list (replicate n c) / real (length (replicate n c)) = c"
    using assms by (simp add: sum_list_replicate)
  show "mean (replicate n c) = Inr c"
    using mean_nonempty [OF ne] by (simp only: m)
  have "map (\<lambda>x. (x - c)\<^sup>2) (replicate n c) = replicate n 0" by simp
  then have "(\<Sum>x\<leftarrow>replicate n c. (x - c)\<^sup>2) = 0"
    by (simp add: sum_list_replicate)
  then show "variance (replicate n c) = Inr 0"
    using variance_nonempty [OF ne] by (simp only: m) simp
qed

text \<open>
  Claim C6. A non-empty series of daily returns has a mean \<open>m\<close> and a variance \<open>v\<close>, and
  \<open>v\<close> is zero or positive. With zero variance the Sharpe ratio is the number 0, not the
  error of a division by zero; with positive variance it is the mean over the standard
  deviation times the square root of 252. A constant series, the constant-zero series
  among them, has zero variance and so the ratio 0.
\<close>

theorem sharpe_ratio_guards_zero_variance:
  "(rs \<noteq> [] \<longrightarrow>
      (\<exists>m v. m = sum_list rs / real (length rs) \<and>
             v = (\<Sum>x\<leftarrow>rs. (x - m)\<^sup>2) / real (length rs) \<and>
             mean rs = Inr m \<and> variance rs = Inr v \<and> 0 \<le> v \<and>
             (v = 0 \<longrightarrow> calculate_sharpe_ratio rs = Inr 0) \<and>
             (0 < v \<longrightarrow> calculate_sharpe_ratio rs = Inr (m / sqrt v * sqrt 252)))) \<and>
   (0 < n \<longrightarrow> variance (replicate n c) = Inr 0 \<and> calculate_sharpe_ratio (replicate n c) = Inr 0)"
proof (intro conjI impI)
  assume ne: "rs \<noteq> []"
  let ?m = "sum_list rs / real (length rs)"
  let ?v = "(\<Sum>x\<leftarrow>rs. (x - ?m)\<^sup>2) / real (length rs)"
  have m: "mean rs = Inr ?m" using ne by (rule mean_nonempty)
  have v: "variance rs = Inr ?v" using ne by (rule variance_nonempty)
  have nn: "0 \<le> ?v" by (intro divide_nonneg_nonneg sum_squares_nonneg) simp
  have z: "calculate_sharpe_ratio rs = Inr 0" if "?v = 0"
    using m v that by (simp add: sharpe_zero_variance)
  have p: "calculate_sharpe_ratio rs = Inr (?m / sqrt ?v * sqrt 252)" if "0 < ?v"
    using m v that by (rule sharpe_positive_variance)
  from m v nn z p
  show "\<exists>m v. m = sum_list rs / real (length rs) \<and>
             v = (\<Sum>x\<leftarrow>rs. (x - m)\<^sup>2) / real (length rs) \<and>
             mean rs = Inr m \<and> variance rs = Inr v \<and> 0 \<le> v \<and>
             (v = 0 \<longrightarrow> calculate_sharpe_ratio rs = Inr 0) \<and>
             (0 < v \<longrightarrow> calculate_sharpe_ratio rs = Inr (m / sqrt v * sqrt 252))"
    by blast
next
  assume n: "0 < n"
  show "variance (replicate n c) = Inr 0" using n by (rule variance_replicate)
  show "calculate_sharpe_ratio (replicate n c) = Inr 0"
    using variance_replicate [OF n, of c] by (rule sharpe_zero_variance)
qed

theorem sharpe_ratio_guards_zero_variance_witness:
  "calculate_sharpe_ratio [0, 2] = Inr (sqrt 252) \<and>
   calculate_sharpe_ratio [3, 3] = Inr 0 \<and>
   calculate_sharpe_ratio (replicate 3 0) = Inr 0"
proof -
  have a: "calculate_sharpe_ratio [0, 2] = Inr (sqrt 252)"
    using sharpe_ratio_guards_zero_variance [of "[0, 2]" 3 0] by simp
  have b: "calculate_sharpe_ratio [3, 3] = Inr 0"
    using sharpe_ratio_guards_zero_variance [of "[3, 3]" 3 0] by simp
  have c: "calculate_sharpe_ratio (replicate 3 0) = Inr 0"
    using sharpe_ratio_guards_zero_variance [of "[0, 2]" 3 0] by simp
  from a b c show ?thesis by blast
qed

section \<open>Target weights are feasible and leave the cash buffer\<close>

lemma sum_exp_nonneg: "0 \<le> (\<Sum>y\<leftarrow>xs. exp (y::real))"
  by (rule sum_list_nonneg) auto

lemma sum_exp_pos:
  assumes "xs \<noteq> []"
  shows "0 < (\<Sum>y\<leftarrow>xs. exp (y::real))"
proof -
  from assms obtain x xs' where xs: "xs = x # xs'" by (cases xs) auto
  have "0 < exp x" by simp
  moreover have "0 \<le> (\<Sum>y\<leftarrow>xs'. exp y)" by (rule sum_exp_nonneg)
  ultimately have "0 < exp x + (\<Sum>y\<leftarrow>xs'. exp y)" by (rule add_pos_nonneg)
  then show ?thesis using xs by simp
qed

lemma softmax_nonneg: "p \<in> set (softmax xs) \<Longrightarrow> 0 \<le> p"
  by (auto simp: softmax_def sum_exp_nonneg)

lemma sum_list_divide: "(\<Sum>x\<leftarrow>xs. f x / (s::real)) = (\<Sum>x\<leftarrow>xs. f x) / s"
  by (induction xs) (simp_all add: add_divide_distrib)

lemma softmax_sum: "xs \<noteq> [] \<Longrightarrow> sum_list (softmax xs) = 1"
  using sum_exp_pos [of xs] by (simp add: softmax_def comp_def sum_list_divide)

lemma softmax_sum_le: "sum_list (softmax xs) \<le> 1"
  by (cases "xs = []") (simp_all add: softmax_sum, simp add: softmax_def)

lemma target_weights_sum:
  "sum_list (target_weights b raw) = (1 - b) * sum_list (softmax raw)"
  by (simp add: target_weights_def comp_def sum_list_const_mult)

lemma target_weights_feasible:
  assumes "default_cash_buffer \<le> b" and "b \<le> 1"
  shows "(\<forall>w \<in> set (target_weights b raw). 0 \<le> w) \<and>
         sum_list (target_weights b raw) \<le> 1 - default_cash_buffer \<and>
         (raw \<noteq> [] \<longrightarrow> sum_list (target_weights b raw) = 1 - b)"
proof -
  have nn: "0 \<le> 1 - b" using assms by simp
  have a: "\<forall>w \<in> set (target_weights b raw). 0 \<le> w"
    using nn by (auto simp: target_weights_def softmax_nonneg)
  have "(1 - b) * sum_list (softmax raw) \<le> (1 - b) * 1"
    using nn softmax_sum_le by (rule mult_left_mono [rotated])
  then have b: "sum_list (target_weights b raw) \<le> 1 - default_cash_buffer"
    using assms by (simp add: target_weights_sum)
  have c: "raw \<noteq> [] \<longrightarrow> sum_list (target_weights b raw) = 1 - b"
    by (simp add: target_weights_sum softmax_sum)
  from a b c show ?thesis by blast
qed

text \<open>
  Claim C2. With a cash buffer of at least the default 5 percent (and at most 1), for
  every raw action of a continuous-action algorithm and for every discrete action of
  every number of symbols, each target weight is at least 0 and the weights sum to at
  most 95 percent; for a non-empty continuous action they sum to exactly 1 minus the
  buffer.
\<close>

theorem target_weights_budget_feasible:
  "default_cash_buffer \<le> b \<and> b \<le> 1 \<longrightarrow>
     (\<forall>w \<in> set (target_weights b raw). 0 \<le> w) \<and>
     sum_list (target_weights b raw) \<le> 1 - 5 / 100 \<and>
     (raw \<noteq> [] \<longrightarrow> sum_list (target_weights b raw) = 1 - b) \<and>
     (\<forall>w \<in> set (discrete_target_weights b n idx). 0 \<le> w) \<and>
     sum_list (discrete_target_weights b n idx) \<le> 1 - 5 / 100"
  using target_weights_feasible [of b raw] target_weights_feasible [of b "decode_action n idx"]
  by (simp add: discrete_target_weights_def default_cash_buffer_def)

theorem target_weights_budget_feasible_witness:
  "target_weights default_cash_buffer [0, 0] = [19 / 40, 19 / 40] \<and>
   sum_list (target_weights default_cash_buffer [0, 0]) \<le> 1 - 5 / 100 \<and>
   decode_action 2 5 = [1, 0] \<and>
   sum_list (discrete_target_weights default_cash_buffer 2 5) \<le> 1 - 5 / 100"
proof -
  have h: "default_cash_buffer \<le> default_cash_buffer \<and> default_cash_buffer \<le> 1"
    by (simp add: default_cash_buffer_def)
  have e: "target_weights default_cash_buffer [0, 0] = [19 / 40, 19 / 40]"
    by (simp add: target_weights_def softmax_def default_cash_buffer_def)
  have d: "decode_action 2 5 = [1, 0]"
    by (simp add: numeral_2_eq_2)
  from target_weights_budget_feasible [of default_cash_buffer "[0, 0]" 2 5] h e d
  show ?thesis by simp
qed

section \<open>The backtest batch: result types and the fallback for a missing model\<close>

lemma bt_algorithm_make_result [simp]: "bt_algorithm (make_result name ty ep) = name"
  by (simp add: make_result_def)

lemma bt_type_make_result [simp]: "bt_type (make_result name ty ep) = ty"
  by (simp add: make_result_def)

lemma backtest_drl_model_name:
  "bt_algorithm (fst (backtest_drl_model files deserialize seed_of replay job_id algo)) = algo"
  by (simp add: backtest_drl_model_def split: sum.splits)

lemma backtest_drl_model_type:
  "bt_type (fst (backtest_drl_model files deserialize seed_of replay job_id algo)) = Drl"
  by (simp add: backtest_drl_model_def split: sum.splits)

lemma backtest_drl_model_fallback:
  "load_model files deserialize job_id algo = Inl failure \<Longrightarrow>
   backtest_drl_model files deserialize seed_of replay job_id algo =
     (make_result algo Drl (replay (SeededRandom (seed_of job_id algo))), [(algo, failure)])"
  by (simp add: backtest_drl_model_def)

lemma run_backtest_found:
  "jobs job_id = Some j \<Longrightarrow>
   run_backtest jobs files deserialize seed_of replay job_id baseline_strategies =
     Inr \<lparr>run_results =
            map (\<lambda>algo. fst (backtest_drl_model files deserialize seed_of replay job_id algo))
                (completed_algorithms j) @
            map (\<lambda>b. make_result b Baseline (replay (BaselinePolicy b))) baseline_strategies,
          run_failures =
            concat (map (\<lambda>algo. snd (backtest_drl_model files deserialize seed_of replay job_id algo))
                        (completed_algorithms j))\<rparr>"
  by (simp add: run_backtest_def Let_def comp_def)

lemma filter_drl_swap:
  "filter (\<lambda>r. bt_algorithm r \<noteq> algo)
     (map (\<lambda>a. fst (backtest_drl_model files deserialize seed_of replay job_id a)) as) =
   map (\<lambda>a. fst (backtest_drl_model files deserialize seed_of replay job_id a))
     (filter (\<lambda>a. a \<noteq> algo) as)"
  by (simp add: filter_map comp_def backtest_drl_model_name)

lemma filter_map_drl_cong:
  assumes "\<forall>a\<in>set as. a \<noteq> algo \<longrightarrow>
             load_model files' deserialize job_id a = load_model files deserialize job_id a"
  shows "filter (\<lambda>r. bt_algorithm r \<noteq> algo)
           (map (\<lambda>a. fst (backtest_drl_model files' deserialize seed_of replay job_id a)) as) =
         filter (\<lambda>r. bt_algorithm r \<noteq> algo)
           (map (\<lambda>a. fst (backtest_drl_model files deserialize seed_of replay job_id a)) as)"
proof -
  have eq: "map (\<lambda>a. fst (backtest_drl_model files' deserialize seed_of replay job_id a))
              (filter (\<lambda>a. a \<noteq> algo) as) =
            map (\<lambda>a. fst (backtest_drl_model files deserialize seed_of replay job_id a))
              (filter (\<lambda>a. a \<noteq> algo) as)"
  proof (rule map_cong [OF refl])
    fix a assume "a \<in> set (filter (\<lambda>a. a \<noteq> algo) as)"
    then have "load_model files' deserialize job_id a = load_model files deserialize job_id a"
      using assms by simp
    then show "fst (backtest_drl_model files' deserialize seed_of replay job_id a) =
               fst (backtest_drl_model files deserialize seed_of replay job_id a)"
      by (simp add: backtest_drl_model_def)
  qed
  show ?thesis unfolding filter_drl_swap by (rule eq)
qed

text \<open>
  Claim C3, as the code has it. For a job that exists the backtest returns one result
  per completed algorithm, each of the type of a trained-agent replay, followed by one
  per requested baseline, each of the baseline type; on the wire the type field of every
  result is one of exactly the two tags \<^verbatim>\<open>drl\<close> and \<^verbatim>\<open>baseline\<close>.
\<close>

theorem backtest_results_are_drl_or_baseline:
  assumes "jobs job_id = Some j"
  shows "\<exists>run. run_backtest jobs files deserialize seed_of replay job_id baseline_strategies = Inr run \<and>
           map bt_type (run_results run) =
             replicate (length (completed_algorithms j)) Drl @
             replicate (length baseline_strategies) Baseline \<and>
           (\<forall>r \<in> set (run_results run). type_tag (bt_type r) \<in> {''drl'', ''baseline''})"
proof -
  let ?run = "\<lparr>run_results =
            map (\<lambda>algo. fst (backtest_drl_model files deserialize seed_of replay job_id algo))
                (completed_algorithms j) @
            map (\<lambda>b. make_result b Baseline (replay (BaselinePolicy b))) baseline_strategies,
          run_failures =
            concat (map (\<lambda>algo. snd (backtest_drl_model files deserialize seed_of replay job_id algo))
                        (completed_algorithms j))\<rparr>"
  have r: "run_backtest jobs files deserialize seed_of replay job_id baseline_strategies = Inr ?run"
    using assms by (rule run_backtest_found)
  have t: "map bt_type (run_results ?run) =
             replicate (length (completed_algorithms j)) Drl @
             replicate (length baseline_strategies) Baseline"
    by (simp add: comp_def backtest_drl_model_type map_replicate_const)
  have "type_tag ty \<in> {''drl'', ''baseline''}" for ty by (cases ty) simp_all
  then have "\<forall>r \<in> set (run_results ?run). type_tag (bt_type r) \<in> {''drl'', ''baseline''}"
    by blast
  with r t show ?thesis by blast
qed

theorem backtest_results_are_drl_or_baseline_witness:
  "\<exists>run. run_backtest [''job'' \<mapsto> \<lparr>trained = [(''PPO'', Completed), (''DQN'', Failed)]\<rparr>]
            (Map.empty :: string \<rightharpoonup> nat) Some (\<lambda>j a. length j + length a)
            (\<lambda>p. \<lparr>ep_returns = [], ep_cumulative = [], ep_dates = []\<rparr>) ''job'' [''BuyAndHold''] = Inr run \<and>
         map bt_type (run_results run) = [Drl, Baseline]"
proof -
  have h: "[''job'' \<mapsto> \<lparr>trained = [(''PPO'', Completed), (''DQN'', Failed)]\<rparr>] ''job'' =
             Some \<lparr>trained = [(''PPO'', Completed), (''DQN'', Failed)]\<rparr>"
    by simp
  have c: "completed_algorithms \<lparr>trained = [(''PPO'', Completed), (''DQN'', Failed)]\<rparr> = [''PPO'']"
    by (simp add: completed_algorithms_def)
  from backtest_results_are_drl_or_baseline
        [where jobs = "[''job'' \<mapsto> \<lparr>trained = [(''PPO'', Completed), (''DQN'', Failed)]\<rparr>]"
           and job_id = "''job''" and j = "\<lparr>trained = [(''PPO'', Completed), (''DQN'', Failed)]\<rparr>"
           and files = "Map.empty :: string \<rightharpoonup> nat" and deserialize = Some
           and seed_of = "\<lambda>j a. length j + length a"
           and replay = "\<lambda>p. \<lparr>ep_returns = [], ep_cumulative = [], ep_dates = []\<rparr>"
           and baseline_strategies = "[''BuyAndHold'']", OF h]
  obtain run where
    "run_backtest [''job'' \<mapsto> \<lparr>trained = [(''PPO'', Completed), (''DQN'', Failed)]\<rparr>]
            (Map.empty :: string \<rightharpoonup> nat) Some (\<lambda>j a. length j + length a)
            (\<lambda>p. \<lparr>ep_returns = [], ep_cumulative = [], ep_dates = []\<rparr>) ''job'' [''BuyAndHold''] = Inr run"
    and "map bt_type (run_results run) =
           replicate (length (completed_algorithms \<lparr>trained = [(''PPO'', Completed), (''DQN'', Failed)]\<rparr>)) Drl @
           replicate (length [''BuyAndHold'']) Baseline"
    by blast
  then show ?thesis unfolding c by simp
qed

text \<open>
  Claim C3 as stated fails on the name of the tag: the result of a trained agent
  carries \<^verbatim>\<open>drl\<close>, which is neither \<^verbatim>\<open>agent\<close> nor \<^verbatim>\<open>baseline\<close>.
\<close>

theorem backtest_type_tag_is_not_agent:
  "\<not> isl (run_backtest [''job'' \<mapsto> \<lparr>trained = [(''PPO'', Completed)]\<rparr>]
            [actor_path ''job'' ''PPO'' ''actor.pth'' \<mapsto> (0::nat)] Some (\<lambda>j a. length j + length a)
            (\<lambda>p. \<lparr>ep_returns = [], ep_cumulative = [], ep_dates = []\<rparr>) ''job'' []) \<and>
   map (type_tag \<circ> bt_type)
     (run_results (projr (run_backtest [''job'' \<mapsto> \<lparr>trained = [(''PPO'', Completed)]\<rparr>]
            [actor_path ''job'' ''PPO'' ''actor.pth'' \<mapsto> (0::nat)] Some (\<lambda>j a. length j + length a)
            (\<lambda>p. \<lparr>ep_returns = [], ep_cumulative = [], ep_dates = []\<rparr>) ''job'' []))) = [''drl''] \<and>
   ''drl'' \<notin> {''agent'', ''baseline''}"
proof -
  have c: "completed_algorithms \<lparr>trained = [(''PPO'', Completed)]\<rparr> = [''PPO'']"
    by (simp add: completed_algorithms_def)
  have l: "load_model [actor_path ''job'' ''PPO'' ''actor.pth'' \<mapsto> (0::nat)] Some ''job'' ''PPO'' = Inr 0"
    by (simp add: load_model_def)
  have "run_backtest [''job'' \<mapsto> \<lparr>trained = [(''PPO'', Completed)]\<rparr>]
            [actor_path ''job'' ''PPO'' ''actor.pth'' \<mapsto> (0::nat)] Some (\<lambda>j a. length j + length a)
            (\<lambda>p. \<lparr>ep_returns = [], ep_cumulative = [], ep_dates = []\<rparr>) ''job'' [] =
        Inr \<lparr>run_results = [make_result ''PPO'' Drl \<lparr>ep_returns = [], ep_cumulative = [], ep_dates = []\<rparr>],
             run_failures = []\<rparr>"
    by (simp add: run_backtest_def c backtest_drl_model_def l)
  then show ?thesis by simp
qed

text \<open>
  Claim C5. For a job that exists the backtest returns a batch, never an error, with one
  entry per completed algorithm and per requested baseline. For a completed algorithm
  whose model is missing or does not load, the batch holds the replay of the pseudo-random
  policy seeded from job id and algorithm, and the failure is recorded with the batch.
  The entries of the other algorithms and of the baselines are the same in every output
  directory in which the models of those other algorithms load the same way.
\<close>

theorem missing_model_falls_back:
  assumes "jobs job_id = Some j"
  shows "\<exists>run. run_backtest jobs files deserialize seed_of replay job_id baseline_strategies = Inr run \<and>
           map bt_algorithm (run_results run) = completed_algorithms j @ baseline_strategies \<and>
           (\<forall>algo \<in> set (completed_algorithms j). \<forall>failure.
               load_model files deserialize job_id algo = Inl failure \<longrightarrow>
                 make_result algo Drl (replay (SeededRandom (seed_of job_id algo))) \<in> set (run_results run) \<and>
                 (algo, failure) \<in> set (run_failures run)) \<and>
           (\<forall>files'. (\<forall>a \<in> set (completed_algorithms j). a \<noteq> algo \<longrightarrow>
                        load_model files' deserialize job_id a = load_model files deserialize job_id a) \<longrightarrow>
               (\<exists>run'. run_backtest jobs files' deserialize seed_of replay job_id baseline_strategies = Inr run' \<and>
                        filter (\<lambda>r. bt_algorithm r \<noteq> algo) (run_results run') =
                        filter (\<lambda>r. bt_algorithm r \<noteq> algo) (run_results run)))"
proof -
  let ?drl = "\<lambda>fs. map (\<lambda>algo. fst (backtest_drl_model fs deserialize seed_of replay job_id algo))
                (completed_algorithms j)"
  let ?base = "map (\<lambda>b. make_result b Baseline (replay (BaselinePolicy b))) baseline_strategies"
  let ?fail = "\<lambda>fs. concat (map (\<lambda>algo. snd (backtest_drl_model fs deserialize seed_of replay job_id algo))
                        (completed_algorithms j))"
  let ?run = "\<lambda>fs. \<lparr>run_results = ?drl fs @ ?base, run_failures = ?fail fs\<rparr>"
  have r: "run_backtest jobs fs deserialize seed_of replay job_id baseline_strategies = Inr (?run fs)" for fs
    using assms by (rule run_backtest_found)
  have names: "map bt_algorithm (run_results (?run files)) = completed_algorithms j @ baseline_strategies"
    by (simp add: comp_def backtest_drl_model_name)
  have fb: "make_result algo Drl (replay (SeededRandom (seed_of job_id algo))) \<in> set (run_results (?run files)) \<and>
            (algo, failure) \<in> set (run_failures (?run files))"
    if "algo \<in> set (completed_algorithms j)" and "load_model files deserialize job_id algo = Inl failure"
    for algo failure
  proof -
    have "backtest_drl_model files deserialize seed_of replay job_id algo =
            (make_result algo Drl (replay (SeededRandom (seed_of job_id algo))), [(algo, failure)])"
      using that(2) by (rule backtest_drl_model_fallback)
    then have f: "fst (backtest_drl_model files deserialize seed_of replay job_id algo) =
                    make_result algo Drl (replay (SeededRandom (seed_of job_id algo)))"
      and s: "snd (backtest_drl_model files deserialize seed_of replay job_id algo) = [(algo, failure)]"
      by simp_all
    have "fst (backtest_drl_model files deserialize seed_of replay job_id algo) \<in> set (?drl files)"
      using that(1) by simp
    then have one: "make_result algo Drl (replay (SeededRandom (seed_of job_id algo))) \<in>
                      set (run_results (?run files))"
      unfolding f by simp
    have "set (snd (backtest_drl_model files deserialize seed_of replay job_id algo)) \<subseteq> set (?fail files)"
      using that(1) by auto
    then have two: "(algo, failure) \<in> set (run_failures (?run files))"
      unfolding s by simp
    from one two show ?thesis by (rule conjI)
  qed
  have un: "filter (\<lambda>r. bt_algorithm r \<noteq> algo) (run_results (?run files')) =
            filter (\<lambda>r. bt_algorithm r \<noteq> algo) (run_results (?run files))"
    if "\<forall>a \<in> set (completed_algorithms j). a \<noteq> algo \<longrightarrow>
          load_model files' deserialize job_id a = load_model files deserialize job_id a" for files'
  proof -
    have "filter (\<lambda>r. bt_algorithm r \<noteq> algo) (?drl files') =
          filter (\<lambda>r. bt_algorithm r \<noteq> algo) (?drl files)"
      using that by (rule filter_map_drl_cong)
    then show ?thesis by simp
  qed
  show ?thesis
  proof (intro exI conjI ballI allI impI)
    show "run_backtest jobs files deserialize seed_of replay job_id baseline_strategies = Inr (?run files)"
      by (rule r)
    show "map bt_algorithm (run_results (?run files)) = completed_algorithms j @ baseline_strategies"
      by (rule names)
  next
    fix algo failure
    assume "algo \<in> set (completed_algorithms j)" "load_model files deserialize job_id algo = Inl failure"
    then show "make_result algo Drl (replay (SeededRandom (seed_of job_id algo))) \<in> set (run_results (?run files))"
      and "(algo, failure) \<in> set (run_failures (?run files))"
      using fb by blast+
  next
    fix files'
    assume h: "\<forall>a \<in> set (completed_algorithms j). a \<noteq> algo \<longrightarrow>
          load_model files' deserialize job_id a = load_model files deserialize job_id a"
    show "run_backtest jobs files' deserialize seed_of replay job_id baseline_strategies = Inr (?run files')"
      by (rule r)
    show "filter (\<lambda>r. bt_algorithm r \<noteq> algo) (run_results (?run files')) =
          filter (\<lambda>r. bt_algorithm r \<noteq> algo) (run_results (?run files))"
      using h by (rule un)
  qed
qed

theorem missing_model_falls_back_witness:
  "\<exists>run. run_backtest [''job'' \<mapsto> \<lparr>trained = [(''PPO'', Completed), (''DQN'', Completed)]\<rparr>]
            [actor_path ''job'' ''DQN'' ''actor_final.pth'' \<mapsto> (7::nat)] Some
            (\<lambda>j a. length j + length a) (\<lambda>p. \<lparr>ep_returns = [], ep_cumulative = [], ep_dates = []\<rparr>)
            ''job'' [''BuyAndHold''] = Inr run \<and>
         map bt_algorithm (run_results run) = [''PPO'', ''DQN'', ''BuyAndHold''] \<and>
         (''PPO'', ModelNotFound) \<in> set (run_failures run) \<and>
         (\<exists>run'. run_backtest [''job'' \<mapsto> \<lparr>trained = [(''PPO'', Completed), (''DQN'', Completed)]\<rparr>]
            [actor_path ''job'' ''DQN'' ''actor_final.pth'' \<mapsto> (7::nat),
             actor_path ''job'' ''PPO'' ''actor.pth'' \<mapsto> 3] Some
            (\<lambda>j a. length j + length a) (\<lambda>p. \<lparr>ep_returns = [], ep_cumulative = [], ep_dates = []\<rparr>)
            ''job'' [''BuyAndHold''] = Inr run' \<and>
            filter (\<lambda>r. bt_algorithm r \<noteq> ''PPO'') (run_results run') =
            filter (\<lambda>r. bt_algorithm r \<noteq> ''PPO'') (run_results run))"
proof -
  let ?j = "\<lparr>trained = [(''PPO'', Completed), (''DQN'', Completed)]\<rparr>"
  let ?files = "[actor_path ''job'' ''DQN'' ''actor_final.pth'' \<mapsto> (7::nat)]"
  let ?files' = "[actor_path ''job'' ''DQN'' ''actor_final.pth'' \<mapsto> (7::nat),
                  actor_path ''job'' ''PPO'' ''actor.pth'' \<mapsto> 3]"
  have h: "[''job'' \<mapsto> ?j] ''job'' = Some ?j" by simp
  have c: "completed_algorithms ?j = [''PPO'', ''DQN'']"
    by (simp add: completed_algorithms_def)
  have l: "load_model ?files Some ''job'' ''PPO'' = Inl ModelNotFound"
    by (simp add: load_model_def actor_path_def)
  have o: "\<forall>a \<in> set (completed_algorithms ?j). a \<noteq> ''PPO'' \<longrightarrow>
             load_model ?files' Some ''job'' a = load_model ?files Some ''job'' a"
    by (simp add: c load_model_def actor_path_def)
  from missing_model_falls_back
        [where jobs = "[''job'' \<mapsto> ?j]" and job_id = "''job''" and j = ?j and files = ?files
           and deserialize = Some and seed_of = "\<lambda>j a. length j + length a"
           and replay = "\<lambda>p. \<lparr>ep_returns = [], ep_cumulative = [], ep_dates = []\<rparr>"
           and baseline_strategies = "[''BuyAndHold'']" and algo = "''PPO''", OF h]
  obtain run where
    r: "run_backtest [''job'' \<mapsto> ?j] ?files Some (\<lambda>j a. length j + length a)
          (\<lambda>p. \<lparr>ep_returns = [], ep_cumulative = [], ep_dates = []\<rparr>) ''job'' [''BuyAndHold''] = Inr run"
    and n: "map bt_algorithm (run_results run) = completed_algorithms ?j @ [''BuyAndHold'']"
    and f: "\<forall>algo \<in> set (completed_algorithms ?j). \<forall>failure.
               load_model ?files Some ''job'' algo = Inl failure \<longrightarrow>
                 make_result algo Drl \<lparr>ep_returns = [], ep_cumulative = [], ep_dates = []\<rparr> \<in> set (run_results run) \<and>
                 (algo, failure) \<in> set (run_failures run)"
    and u: "\<forall>files'. (\<forall>a \<in> set (completed_algorithms ?j). a \<noteq> ''PPO'' \<longrightarrow>
                        load_model files' Some ''job'' a = load_model ?files Some ''job'' a) \<longrightarrow>
               (\<exists>run'. run_backtest [''job'' \<mapsto> ?j] files' Some (\<lambda>j a. length j + length a)
                          (\<lambda>p. \<lparr>ep_returns = [], ep_cumulative = [], ep_dates = []\<rparr>) ''job'' [''BuyAndHold''] = Inr run' \<and>
                        filter (\<lambda>r. bt_algorithm r \<noteq> ''PPO'') (run_results run') =
                        filter (\<lambda>r. bt_algorithm r \<noteq> ''PPO'') (run_results run))"
    by blast
  have "''PPO'' \<in> set (completed_algorithms ?j)" by (simp add: c)
  with f l have rec: "(''PPO'', ModelNotFound) \<in> set (run_failures run)" by blast
  from u o have "\<exists>run'. run_backtest [''job'' \<mapsto> ?j] ?files' Some (\<lambda>j a. length j + length a)
                          (\<lambda>p. \<lparr>ep_returns = [], ep_cumulative = [], ep_dates = []\<rparr>) ''job'' [''BuyAndHold''] = Inr run' \<and>
                        filter (\<lambda>r. bt_algorithm r \<noteq> ''PPO'') (run_results run') =
                        filter (\<lambda>r. bt_algorithm r \<noteq> ''PPO'') (run_results run)"
    by blast
  with r n rec show ?thesis unfolding c by auto
qed

end
